theory Spec2Isabelle
  imports Complex_Main
begin

section \<open>The qpOASES plugin of the QP solver interface\<close>

text \<open>
  This theory embeds \<^verbatim>\<open>casadi/interfaces/qpoases/qpoases_interface.cpp\<close>: the option
  conversions, the error mapper \<^verbatim>\<open>getErrorMessage\<close>, and the life cycle of a solver
  instance (\<^verbatim>\<open>init\<close>, \<^verbatim>\<open>init_memory\<close>, \<^verbatim>\<open>eval\<close>).

  Conventions of the embedding.
  \<^item> A \<^verbatim>\<open>double\<close> is a \<^typ>\<open>real\<close>. The interface only copies doubles, compares
    them and multiplies them by \<open>-1\<close>; all three are exact on doubles, so no rounding is
    hidden by this choice.
  \<^item> A buffer of doubles is a list; a pointer that may be null is an \<open>option\<close>.
  \<^item> A C++ exception is a value of type \<open>error\<close>. State that the code has mutated before
    a \<^verbatim>\<open>throw\<close> is returned together with the exception. \<open>ConfigurationError\<close> is the
    spec's name for a rejected input; \<open>Undefined_behaviour\<close> is not an exception but marks
    an execution that C++ leaves undefined (signed overflow, a call through a null
    pointer).
  \<^item> qpOASES itself is an external library. Its solver objects are an arbitrary type
    \<open>'q\<close>, and its entry points are the fields of the record \<open>env\<close> below.
\<close>

subsection \<open>Exceptions\<close>

datatype error =
    CasadiException string
  | ConfigurationError
  | Undefined_behaviour string

type_synonym dvec = "real list"
type_synonym dptr = "real list option"

subsection \<open>Option enumerations and their conversions\<close>

text \<open>
  The enumerations are declared by qpOASES. Each datatype lists the enumerators the
  conversions name; the last constructor stands for every other value of the C++
  enumeration, which the \<^verbatim>\<open>default:\<close> branches receive.
\<close>

datatype BooleanType = BT_TRUE | BT_FALSE | BT_unlisted

datatype SubjectToStatus =
  ST_INACTIVE | ST_LOWER | ST_INFEASIBLE_LOWER | ST_INFEASIBLE_UPPER | ST_UNDEFINED | ST_unlisted

datatype PrintLevel = PL_TABULAR | PL_NONE | PL_LOW | PL_MEDIUM | PL_HIGH | PL_unlisted

text \<open>\<^verbatim>\<open>casadi_error(msg)\<close> throws a \<^verbatim>\<open>CasadiException\<close> carrying \<open>msg\<close>.\<close>

definition casadi_error :: "string \<Rightarrow> error + 'a" where
  "casadi_error msg = Inl (CasadiException msg)"

fun BooleanType_to_bool :: "BooleanType \<Rightarrow> error + bool" where
  "BooleanType_to_bool BT_TRUE = Inr True"
| "BooleanType_to_bool BT_FALSE = Inr False"
| "BooleanType_to_bool BT_unlisted = casadi_error ''not_implemented''"

definition bool_to_BooleanType :: "bool \<Rightarrow> BooleanType" where
  "bool_to_BooleanType b = (if b then BT_TRUE else BT_FALSE)"

fun SubjectToStatus_to_string :: "SubjectToStatus \<Rightarrow> error + string" where
  "SubjectToStatus_to_string ST_INACTIVE = Inr ''inactive''"
| "SubjectToStatus_to_string ST_LOWER = Inr ''lower''"
| "SubjectToStatus_to_string ST_INFEASIBLE_LOWER = Inr ''infeasible_lower''"
| "SubjectToStatus_to_string ST_INFEASIBLE_UPPER = Inr ''infeasible_upper''"
| "SubjectToStatus_to_string ST_UNDEFINED = Inr ''undefined''"
| "SubjectToStatus_to_string ST_unlisted = casadi_error ''not_implemented''"

definition string_to_SubjectToStatus :: "string \<Rightarrow> error + SubjectToStatus" where
  "string_to_SubjectToStatus b =
     (if b = ''inactive'' then Inr ST_INACTIVE
      else if b = ''lower'' then Inr ST_LOWER
      else if b = ''infeasible_lower'' then Inr ST_INFEASIBLE_LOWER
      else if b = ''infeasible_upper'' then Inr ST_INFEASIBLE_UPPER
      else if b = ''undefined'' then Inr ST_UNDEFINED
      else casadi_error ''not_implemented'')"

fun PrintLevel_to_string :: "PrintLevel \<Rightarrow> error + string" where
  "PrintLevel_to_string PL_TABULAR = Inr ''tabular''"
| "PrintLevel_to_string PL_NONE = Inr ''none''"
| "PrintLevel_to_string PL_LOW = Inr ''low''"
| "PrintLevel_to_string PL_MEDIUM = Inr ''medium''"
| "PrintLevel_to_string PL_HIGH = Inr ''high''"
| "PrintLevel_to_string PL_unlisted = casadi_error ''not_implemented''"

definition string_to_PrintLevel :: "string \<Rightarrow> error + PrintLevel" where
  "string_to_PrintLevel b =
     (if b = ''tabular'' then Inr PL_TABULAR
      else if b = ''none'' then Inr PL_NONE
      else if b = ''low'' then Inr PL_LOW
      else if b = ''medium'' then Inr PL_MEDIUM
      else if b = ''high'' then Inr PL_HIGH
      else casadi_error ''not_implemented'')"

subsection \<open>The error mapper\<close>

text \<open>
  \<^verbatim>\<open>getErrorMessage\<close> is a \<^verbatim>\<open>switch\<close> over the enumerators of
  \<^verbatim>\<open>qpOASES::returnValue\<close>. The table lists its \<^verbatim>\<open>case\<close> labels in source order, each
  with the string it returns. The numeric value of an enumerator is fixed by the qpOASES
  headers; the model takes it as the parameter \<open>rv\<close>, from enumerator name to value.
\<close>

definition case_table :: "(string \<times> string) list" where
  "case_table =
    [(''SUCCESSFUL_RETURN'',
      ''Successful return.''),
     (''RET_DIV_BY_ZERO'',
      ''Division by zero.''),
     (''RET_INDEX_OUT_OF_BOUNDS'',
      ''Index out of bounds.''),
     (''RET_INVALID_ARGUMENTS'',
      ''At least one of the arguments is invalid.''),
     (''RET_ERROR_UNDEFINED'',
      ''Error number undefined.''),
     (''RET_WARNING_UNDEFINED'',
      ''Warning number undefined.''),
     (''RET_INFO_UNDEFINED'',
      ''Info number undefined.''),
     (''RET_EWI_UNDEFINED'',
      ''Error/warning/info number undefined.''),
     (''RET_AVAILABLE_WITH_LINUX_ONLY'',
      ''This function is available under Linux only.''),
     (''RET_UNKNOWN_BUG'',
      ''The error occured is not yet known.''),
     (''RET_PRINTLEVEL_CHANGED'',
      ''Print level changed.''),
     (''RET_NOT_YET_IMPLEMENTED'',
      ''Requested function is not yet implemented in this version of qpOASES.''),
     (''RET_INDEXLIST_MUST_BE_REORDERD'',
      ''Index list has to be reordered.''),
     (''RET_INDEXLIST_EXCEEDS_MAX_LENGTH'',
      ''Index list exceeds its maximal physical length.''),
     (''RET_INDEXLIST_CORRUPTED'',
      ''Index list corrupted.''),
     (''RET_INDEXLIST_OUTOFBOUNDS'',
      ''Physical index is out of bounds.''),
     (''RET_INDEXLIST_ADD_FAILED'',
      ''Adding indices from another index set failed.''),
     (''RET_INDEXLIST_INTERSECT_FAILED'',
      ''Intersection with another index set failed.''),
     (''RET_INDEX_ALREADY_OF_DESIRED_STATUS'',
      ''Index is already of desired status.''),
     (''RET_ADDINDEX_FAILED'',
      ''Adding index to index set failed.''),
     (''RET_REMOVEINDEX_FAILED'',
      ''Removing index from index set failed.''),
     (''RET_SWAPINDEX_FAILED'',
      ''Cannot swap between different indexsets.''),
     (''RET_NOTHING_TO_DO'',
      ''Nothing to do.''),
     (''RET_SETUP_BOUND_FAILED'',
      ''Setting up bound index failed.''),
     (''RET_SETUP_CONSTRAINT_FAILED'',
      ''Setting up constraint index failed.''),
     (''RET_MOVING_BOUND_FAILED'',
      ''Moving bound between index sets failed.''),
     (''RET_MOVING_CONSTRAINT_FAILED'',
      ''Moving constraint between index sets failed.''),
     (''RET_SHIFTING_FAILED'',
      ''Shifting of bounds/constraints failed.''),
     (''RET_ROTATING_FAILED'',
      ''Rotating of bounds/constraints failed.''),
     (''RET_QPOBJECT_NOT_SETUP'',
      ''The QP object has not been setup correctly, use another constructor.''),
     (''RET_QP_ALREADY_INITIALISED'',
      ''QProblem has already been initialized.''),
     (''RET_NO_INIT_WITH_STANDARD_SOLVER'',
      ''Initialisation via extern QP solver is not yet implemented.''),
     (''RET_RESET_FAILED'',
      ''Reset failed.''),
     (''RET_INIT_FAILED'',
      ''Initialisation failed.''),
     (''RET_INIT_FAILED_TQ'',
      ''Initialisation failed due to TQ factorisation.''),
     (''RET_INIT_FAILED_CHOLESKY'',
      ''Initialisation failed due to Cholesky decomposition.''),
     (''RET_INIT_FAILED_HOTSTART'',
      ''Initialisation failed! QP could not be solved!''),
     (''RET_INIT_FAILED_INFEASIBILITY'',
      ''Initial QP could not be solved due to infeasibility!''),
     (''RET_INIT_FAILED_UNBOUNDEDNESS'',
      ''Initial QP could not be solved due to unboundedness!''),
     (''RET_INIT_SUCCESSFUL'',
      ''Initialisation done.''),
     (''RET_OBTAINING_WORKINGSET_FAILED'',
      ''Failed to obtain working set for auxiliary QP.''),
     (''RET_SETUP_WORKINGSET_FAILED'',
      ''Failed to setup working set for auxiliary QP.''),
     (''RET_SETUP_AUXILIARYQP_FAILED'',
      ''Failed to setup auxiliary QP for initialized homotopy.''),
     (''RET_NO_EXTERN_SOLVER'',
      ''No extern QP solver available.''),
     (''RET_QP_UNBOUNDED'',
      ''QP is unbounded.''),
     (''RET_QP_INFEASIBLE'',
      ''QP is infeasible.''),
     (''RET_QP_NOT_SOLVED'',
      ''Problems occured while solving QP with standard solver.''),
     (''RET_QP_SOLVED'',
      ''QP successfully solved.''),
     (''RET_UNABLE_TO_SOLVE_QP'',
      ''Problems occured while solving QP.''),
     (''RET_INITIALISATION_STARTED'',
      ''Starting problem initialisation.''),
     (''RET_HOTSTART_FAILED'',
      ''Unable to perform homotopy due to internal error.''),
     (''RET_HOTSTART_FAILED_TO_INIT'',
      ''Unable to initialise problem.''),
     (''RET_HOTSTART_FAILED_AS_QP_NOT_INITIALISED'',
      ''Unable to perform homotopy as previous QP is not solved.''),
     (''RET_ITERATION_STARTED'',
      ''Iteration...''),
     (''RET_SHIFT_DETERMINATION_FAILED'',
      ''Determination of shift of the QP data failed.''),
     (''RET_STEPDIRECTION_DETERMINATION_FAILED'',
      ''Determination of step direction failed.''),
     (''RET_STEPLENGTH_DETERMINATION_FAILED'',
      ''Determination of step direction failed.''),
     (''RET_OPTIMAL_SOLUTION_FOUND'',
      ''Optimal solution of neighbouring QP found.''),
     (''RET_HOMOTOPY_STEP_FAILED'',
      ''Unable to perform homotopy step.''),
     (''RET_HOTSTART_STOPPED_INFEASIBILITY'',
      ''Premature homotopy termination because QP is infeasible.''),
     (''RET_HOTSTART_STOPPED_UNBOUNDEDNESS'',
      ''Premature homotopy termination because QP is unbounded.''),
     (''RET_WORKINGSET_UPDATE_FAILED'',
      ''Unable to update working sets according to initial guesses.''),
     (''RET_MAX_NWSR_REACHED'',
      ''Maximum number of working set recalculations performed.''),
     (''RET_CONSTRAINTS_NOT_SPECIFIED'',
      ''Problem does comprise constraints! You also have to specify new constraints' bounds.''),
     (''RET_INVALID_FACTORISATION_FLAG'',
      ''Invalid factorisation flag.''),
     (''RET_UNABLE_TO_SAVE_QPDATA'',
      ''Unable to save QP data.''),
     (''RET_STEPDIRECTION_FAILED_TQ'',
      ''Abnormal termination due to TQ factorisation.''),
     (''RET_STEPDIRECTION_FAILED_CHOLESKY'',
      ''Abnormal termination due to Cholesky factorisation.''),
     (''RET_CYCLING_DETECTED'',
      ''Cycling detected.''),
     (''RET_CYCLING_NOT_RESOLVED'',
      ''Cycling cannot be resolved, QP probably infeasible.''),
     (''RET_CYCLING_RESOLVED'',
      ''Cycling probably resolved.''),
     (''RET_STEPSIZE'',
      ''For displaying performed stepsize.''),
     (''RET_STEPSIZE_NONPOSITIVE'',
      ''For displaying non-positive stepsize.''),
     (''RET_SETUPSUBJECTTOTYPE_FAILED'',
      ''Setup of SubjectToTypes failed.''),
     (''RET_ADDCONSTRAINT_FAILED'',
      ''Addition of constraint to working set failed.''),
     (''RET_ADDCONSTRAINT_FAILED_INFEASIBILITY'',
      ''Addition of constraint to working set failed (due to QP infeasibility).''),
     (''RET_ADDBOUND_FAILED'',
      ''Addition of bound to working set failed.''),
     (''RET_ADDBOUND_FAILED_INFEASIBILITY'',
      ''Addition of bound to working set failed (due to QP infeasibility).''),
     (''RET_REMOVECONSTRAINT_FAILED'',
      ''Removal of constraint from working set failed.''),
     (''RET_REMOVEBOUND_FAILED'',
      ''Removal of bound from working set failed.''),
     (''RET_REMOVE_FROM_ACTIVESET'',
      ''Removing from active set...''),
     (''RET_ADD_TO_ACTIVESET'',
      ''Adding to active set...''),
     (''RET_REMOVE_FROM_ACTIVESET_FAILED'',
      ''Removing from active set failed.''),
     (''RET_ADD_TO_ACTIVESET_FAILED'',
      ''Adding to active set failed.''),
     (''RET_CONSTRAINT_ALREADY_ACTIVE'',
      ''Constraint is already active.''),
     (''RET_ALL_CONSTRAINTS_ACTIVE'',
      ''All constraints are active, no further constraint can be added.''),
     (''RET_LINEARLY_DEPENDENT'',
      ''New bound/constraint is linearly dependent.''),
     (''RET_LINEARLY_INDEPENDENT'',
      ''New bound/constraint is linearly independent.''),
     (''RET_LI_RESOLVED'',
      ''Linear indepence of active contraint matrix successfully resolved.''),
     (''RET_ENSURELI_FAILED'',
      ''Failed to ensure linear indepence of active contraint matrix.''),
     (''RET_ENSURELI_FAILED_TQ'',
      ''Abnormal termination due to TQ factorisation.''),
     (''RET_ENSURELI_FAILED_NOINDEX'',
      ''QP is infeasible.''),
     (''RET_ENSURELI_FAILED_CYCLING'',
      ''QP is infeasible.''),
     (''RET_BOUND_ALREADY_ACTIVE'',
      ''Bound is already active.''),
     (''RET_ALL_BOUNDS_ACTIVE'',
      ''All bounds are active, no further bound can be added.''),
     (''RET_CONSTRAINT_NOT_ACTIVE'',
      ''Constraint is not active.''),
     (''RET_BOUND_NOT_ACTIVE'',
      ''Bound is not active.''),
     (''RET_HESSIAN_NOT_SPD'',
      ''Projected Hessian matrix not positive definite.''),
     (''RET_HESSIAN_INDEFINITE'',
      ''Hessian matrix is indefinite.''),
     (''RET_MATRIX_SHIFT_FAILED'',
      ''Unable to update matrices or to transform vectors.''),
     (''RET_MATRIX_FACTORISATION_FAILED'',
      ''Unable to calculate new matrix factorisations.''),
     (''RET_PRINT_ITERATION_FAILED'',
      ''Unable to print information on current iteration.''),
     (''RET_NO_GLOBAL_MESSAGE_OUTPUTFILE'',
      ''No global message output file initialized.''),
     (''RET_DISABLECONSTRAINTS_FAILED'',
      ''Unable to disbable constraints.''),
     (''RET_ENABLECONSTRAINTS_FAILED'',
      ''Unable to enbable constraints.''),
     (''RET_ALREADY_ENABLED'',
      ''Bound or constraint is already enabled.''),
     (''RET_ALREADY_DISABLED'',
      ''Bound or constraint is already disabled.''),
     (''RET_NO_HESSIAN_SPECIFIED'',
      ''No Hessian matrix has been specified.''),
     (''RET_USING_REGULARISATION'',
      ''Using regularisation as Hessian matrix is not positive definite.''),
     (''RET_EPS_MUST_BE_POSITVE'',
      ''Eps for regularisation must be sufficiently positive.''),
     (''RET_REGSTEPS_MUST_BE_POSITVE'',
      ''Maximum number of regularisation steps must be non-negative.''),
     (''RET_HESSIAN_ALREADY_REGULARISED'',
      ''Hessian has been already regularised.''),
     (''RET_CANNOT_REGULARISE_IDENTITY'',
      ''Identity Hessian matrix cannot be regularised.''),
     (''RET_NO_REGSTEP_NWSR'',
      ''No additional regularisation step could be performed due to limits.''),
     (''RET_FEWER_REGSTEPS_NWSR'',
      ''Fewer additional regularisation steps have been performed due to limits.''),
     (''RET_CHOLESKY_OF_ZERO_HESSIAN'',
      ''Cholesky decomposition of (unregularised) zero Hessian matrix.''),
     (''RET_CONSTRAINTS_ARE_NOT_SCALED'',
      ''When defining __MANY_CONSTRAINTS__, l1 norm of each constraint must be not greater than one.''),
     (''RET_ERROR_IN_CONSTRAINTPRODUCT'',
      ''Error in user-defined constraint product function.''),
     (''RET_UPDATEMATRICES_FAILED'',
      ''Unable to update QP matrices.''),
     (''RET_UPDATEMATRICES_FAILED_AS_QP_NOT_SOLVED'',
      ''Unable to update matrices as previous QP is not solved.''),
     (''RET_UNABLE_TO_OPEN_FILE'',
      ''Unable to open file.''),
     (''RET_UNABLE_TO_WRITE_FILE'',
      ''Unable to write into file.''),
     (''RET_UNABLE_TO_READ_FILE'',
      ''Unable to read from file.''),
     (''RET_FILEDATA_INCONSISTENT'',
      ''File contains inconsistent data.''),
     (''RET_UNABLE_TO_ANALYSE_QPROBLEM'',
      ''Unable to analyse (S)QProblem(B) object''),
     (''RET_NWSR_SET_TO_ONE'',
      ''Maximum number of working set changes was set to 1.''),
     (''RET_BENCHMARK_ABORTED'',
      ''Benchmark aborted.''),
     (''RET_UNABLE_TO_READ_BENCHMARK'',
      ''Unable to read benchmark data.''),
     (''RET_INITIAL_QP_SOLVED'',
      ''Initial QP solved.''),
     (''RET_QP_SOLUTION_STARTED'',
      ''Solving QP...''),
     (''RET_BENCHMARK_SUCCESSFUL'',
      ''Benchmark terminated successfully.'')]"

text \<open>\<^verbatim>\<open>ss << flag\<close>: the decimal rendering of an \<^verbatim>\<open>int\<close>.\<close>

definition digit_char :: "nat \<Rightarrow> char" where
  "digit_char d = ''0123456789'' ! d"

fun show_nat :: "nat \<Rightarrow> string" where
  "show_nat n =
     (if n < 10 then [digit_char n]
      else show_nat (n div 10) @ [digit_char (n mod 10)])"

declare show_nat.simps [simp del]

definition show_int :: "int \<Rightarrow> string" where
  "show_int i = (if i < 0 then CHR ''-'' # show_nat (nat (- i)) else show_nat (nat i))"

definition getErrorMessage :: "(string \<Rightarrow> int) \<Rightarrow> int \<Rightarrow> string" where
  "getErrorMessage rv flag =
     (case find (\<lambda>(label, msg). rv label = flag) case_table of
        Some (label, msg) \<Rightarrow> msg
      | None \<Rightarrow> ''Unknown error flag: '' @ show_int flag @ ''. Consult qpOASES documentation.'')"

text \<open>
  Reading the flag back from the default message: the text between the fixed prefix and
  the first full stop, parsed as a signed decimal.
\<close>

definition read_nat :: "string \<Rightarrow> nat" where
  "read_nat s = foldl (\<lambda>a c. 10 * a + (of_char c - 48)) 0 s"

definition read_int :: "string \<Rightarrow> int" where
  "read_int s =
     (case s of
        [] \<Rightarrow> 0
      | c # cs \<Rightarrow> if c = CHR ''-'' then - int (read_nat cs) else int (read_nat s))"

definition flag_of_default_message :: "string \<Rightarrow> int" where
  "flag_of_default_message msg =
     read_int (takeWhile (\<lambda>c. c \<noteq> CHR ''.'') (drop (length ''Unknown error flag: '') msg))"

text \<open>An assignment of values to the enumerators, in the order of the table.\<close>

fun index_from :: "nat \<Rightarrow> string \<Rightarrow> string list \<Rightarrow> int" where
  "index_from k label [] = - 1"
| "index_from k label (x # xs) = (if x = label then int k else index_from (Suc k) label xs)"

definition rv_seq :: "string \<Rightarrow> int" where
  "rv_seq label = index_from 0 label (map fst case_table)"

subsection \<open>Runtime helpers\<close>

text \<open>
  Modelled from the spec: \<^verbatim>\<open>casadi_copy\<close> belongs to the runtime of the framework,
  which is not part of the sources covered here. The spec describes it as the copy primitive of
  the marshaling layer: transfer a dense vector into a slot. \<open>casadi_copy x n y\<close> is the
  content of the destination \<open>y\<close> after the first \<open>n\<close> entries of \<open>x\<close> have been copied into
  it. A null destination is skipped, which the callers below express with \<open>map_option\<close>.
\<close>

definition casadi_copy :: "dvec \<Rightarrow> nat \<Rightarrow> dvec \<Rightarrow> dvec" where
  "casadi_copy x n y = take n x @ drop n y"

text \<open>
  Modelled from the spec: \<^verbatim>\<open>casadi_scal\<close> belongs to the same runtime and is likewise
  missing. It is the scale primitive of the marshaling layer, by which a vector is
  negated or scaled in place: \<open>casadi_scal n alpha x\<close> is \<open>x\<close> after its first \<open>n\<close> entries
  have been multiplied by \<open>alpha\<close>.
\<close>

definition casadi_scal :: "nat \<Rightarrow> real \<Rightarrow> dvec \<Rightarrow> dvec" where
  "casadi_scal n alpha x = map (\<lambda>v. v * alpha) (take n x) @ drop n x"

text \<open>
  \<^verbatim>\<open>casadi_assert(c)\<close> throws a \<^verbatim>\<open>CasadiException\<close> naming the failed condition; the
  model keeps the text of the condition as the message.
\<close>

definition casadi_assert :: "bool \<Rightarrow> string \<Rightarrow> error option" where
  "casadi_assert c txt = (if c then None else Some (CasadiException txt))"

subsection \<open>The backend as a parameter\<close>

text \<open>
  The calls \<^verbatim>\<open>eval\<close> makes on the qpOASES object that change its state, with the
  arguments handed over: \<open>H\<close>, \<open>g\<close>, (\<open>A\<close>,) the variable bounds, (the constraint
  bounds,) \<open>nWSR\<close> and the pointer to the CPU time limit.
\<close>

datatype qp_call =
    QProblemB_init dvec dvec dvec dvec int "real option"
  | SQProblem_init dvec dvec dvec dvec dvec dvec dvec int "real option"
  | QProblemB_reset
  | SQProblem_hotstart dvec dvec dvec dvec dvec dvec dvec int "real option"

fun is_init :: "qp_call \<Rightarrow> bool" where
  "is_init (QProblemB_init h g lb ub nWSR cpu) = True"
| "is_init (SQProblem_init h g a lb ub lbA ubA nWSR cpu) = True"
| "is_init QProblemB_reset = False"
| "is_init (SQProblem_hotstart h g a lb ub lbA ubA nWSR cpu) = False"

fun is_hotstart :: "qp_call \<Rightarrow> bool" where
  "is_hotstart (SQProblem_hotstart h g a lb ub lbA ubA nWSR cpu) = True"
| "is_hotstart (QProblemB_init h g lb ub nWSR cpu) = False"
| "is_hotstart (SQProblem_init h g a lb ub lbA ubA nWSR cpu) = False"
| "is_hotstart QProblemB_reset = False"

text \<open>The budget a call runs under: \<open>nWSR\<close> and the CPU time pointer; a reset has none.\<close>

fun budget_of :: "qp_call \<Rightarrow> (int \<times> real option) option" where
  "budget_of (QProblemB_init h g lb ub nWSR cpu) = Some (nWSR, cpu)"
| "budget_of (SQProblem_init h g a lb ub lbA ubA nWSR cpu) = Some (nWSR, cpu)"
| "budget_of QProblemB_reset = None"
| "budget_of (SQProblem_hotstart h g a lb ub lbA ubA nWSR cpu) = Some (nWSR, cpu)"

text \<open>
  The options object handed to qpOASES. Only the fields that pass through one of the
  conversions above are kept; the numeric tunables (tolerances, step counts) are copied
  from the resolved configuration unchanged and cannot fail.
\<close>

record Options =
  printLevel :: PrintLevel
  enableRamping :: BooleanType
  enableFarBounds :: BooleanType
  enableFlippingBounds :: BooleanType
  enableRegularisation :: BooleanType
  enableFullLITests :: BooleanType
  enableNZCTests :: BooleanType
  enableEqualities :: BooleanType
  initialStatusBounds :: SubjectToStatus

text \<open>
  Everything the interface uses and does not define: the values of the status
  enumerators, the densification of a sparse matrix (source nonzeros, sparsity pattern,
  destination buffer, transpose flag), and qpOASES. \<open>invoke\<close> performs a state-changing
  call and yields the status it returns and the new solver object.
\<close>

record ('q, 'sp) env =
  rv :: "string \<Rightarrow> int"
  casadi_densify :: "dvec \<Rightarrow> 'sp \<Rightarrow> dvec \<Rightarrow> bool \<Rightarrow> dvec"
  new_QProblemB :: "nat \<Rightarrow> 'q"
  new_SQProblem :: "nat \<Rightarrow> nat \<Rightarrow> 'q"
  setOptions :: "Options \<Rightarrow> 'q \<Rightarrow> 'q"
  invoke :: "qp_call \<Rightarrow> 'q \<Rightarrow> int \<times> 'q"
  getObjVal :: "'q \<Rightarrow> real"
  getPrimalSolution :: "'q \<Rightarrow> dvec"
  getDualSolution :: "'q \<Rightarrow> dvec"

subsection \<open>The solver instance\<close>

text \<open>
  The resolved configuration: \<open>nWSR\<close> and \<open>CPUtime\<close> have no default, so they may be
  unset (\<^verbatim>\<open>hasSetOption\<close>); the others always carry a value.
\<close>

record config =
  opt_nWSR :: "int option"
  opt_CPUtime :: "real option"
  opt_printLevel :: string
  opt_enableRamping :: bool
  opt_enableFarBounds :: bool
  opt_enableFlippingBounds :: bool
  opt_enableRegularisation :: bool
  opt_enableFullLITests :: bool
  opt_enableNZCTests :: bool
  opt_enableEqualities :: bool
  opt_initialStatusBounds :: string

text \<open>
  The fields of a \<^verbatim>\<open>QpoasesInterface\<close>. A member \<^verbatim>\<open>x_\<close> of the class is the field
  \<open>x_'\<close>, since a name cannot end in an underscore here. The base class fixes the
  dimensions \<^verbatim>\<open>n_\<close> (variables) and \<^verbatim>\<open>nc_\<close> (constraints), the sparsity patterns of
  \<open>H\<close> and \<open>A\<close>, and the flag \<^verbatim>\<open>inputs_check_\<close>; \<open>sz_w\<close> is the number of doubles of
  persistent work memory requested so far.
\<close>

record 'sp QpoasesInterface =
  n_' :: nat
  nc_' :: nat
  inputs_check_' :: bool
  sparsity_H :: 'sp
  sparsity_A :: 'sp
  options :: config
  max_nWSR_' :: int
  max_cputime_' :: real
  sz_w :: nat

text \<open>
  Modelled from the spec: \<^verbatim>\<open>alloc_w\<close> is a method of the function base class, which is
  not part of the sources covered here. Following the spec's Workspace (flat scratch memory,
  sized at construction and never resized), a persistent request for \<open>sz\<close> doubles, the
  only kind \<^verbatim>\<open>init\<close> makes, extends the work memory of the instance by \<open>sz\<close> doubles.
\<close>

definition alloc_w :: "nat \<Rightarrow> 'sp QpoasesInterface \<Rightarrow> 'sp QpoasesInterface" where
  "alloc_w sz self = self\<lparr>sz_w := sz_w self + sz\<rparr>"

text \<open>
  \<^verbatim>\<open>init\<close> first runs the initialisation of the base class; the record it receives
  here is the object as the base class leaves it.

  The dimensions are C++ \<^verbatim>\<open>int\<close>s, and \<^verbatim>\<open>n_*n_\<close>, \<^verbatim>\<open>n_*nc_\<close>, \<^verbatim>\<open>n_+nc_\<close> and
  \<^verbatim>\<open>5*(n_+nc_)\<close> are computed in \<^verbatim>\<open>int\<close>. A result beyond \<open>INT_MAX\<close> is a signed
  overflow, which C++ leaves undefined; the model reports it as \<open>Undefined_behaviour\<close>.
\<close>

definition INT_MAX :: int where
  "INT_MAX = 2147483647"

definition init :: "'sp QpoasesInterface \<Rightarrow> error + 'sp QpoasesInterface" where
  "init self =
     (let n = n_' self; nc = nc_' self in
      case (case opt_nWSR (options self) of
              Some k \<Rightarrow>
                (case casadi_assert (0 \<le> k) ''max_nWSR_>=0'' of
                   Some e \<Rightarrow> Inl e
                 | None \<Rightarrow> Inr k)
            | None \<Rightarrow>
                if int (5 * (n + nc)) \<le> INT_MAX then Inr (int (5 * (n + nc)))
                else Inl (Undefined_behaviour ''signed overflow'')) of
        Inl e \<Rightarrow> Inl e
      | Inr max_nWSR \<Rightarrow>
     (case (case opt_CPUtime (options self) of
              Some t \<Rightarrow>
                (case casadi_assert (0 < t) ''max_cputime_>0'' of
                   Some e \<Rightarrow> Inl e
                 | None \<Rightarrow> Inr t)
            | None \<Rightarrow> Inr (- 1)) of
        Inl e \<Rightarrow> Inl e
      | Inr max_cputime \<Rightarrow>
          if int (n * n) \<le> INT_MAX \<and> int (n * nc) \<le> INT_MAX \<and> int (n + nc) \<le> INT_MAX
          then
            Inr (alloc_w (n + nc)
                (alloc_w nc
                (alloc_w nc
                (alloc_w n
                (alloc_w n
                (alloc_w n
                (alloc_w (n * nc)
                (alloc_w (n * n)
                  (self\<lparr>max_nWSR_' := max_nWSR, max_cputime_' := max_cputime\<rparr>)))))))))
          else Inl (Undefined_behaviour ''signed overflow'')))"

subsection \<open>Per-instance memory\<close>

record 'q QpoasesMemory =
  called_once :: bool
  qp :: "'q option"

text \<open>
  \<^verbatim>\<open>init_memory\<close> clears \<open>called_once\<close> and replaces the qpOASES object before it converts
  the options, so an exception from a conversion leaves the memory with a new object
  that has not received its options. The result is the memory together with the
  exception, if any.
\<close>

definition init_memory ::
  "('q, 'sp) env \<Rightarrow> 'sp QpoasesInterface \<Rightarrow> 'q QpoasesMemory \<Rightarrow> 'q QpoasesMemory \<times> error option"
where
  "init_memory E self m =
     (let m = m\<lparr>called_once := False\<rparr>;
          q = (if nc_' self = 0 then new_QProblemB E (n_' self)
               else new_SQProblem E (n_' self) (nc_' self));
          m = m\<lparr>qp := Some q\<rparr>;
          c = options self
      in case string_to_PrintLevel (opt_printLevel c) of
           Inl e \<Rightarrow> (m, Some e)
         | Inr pl \<Rightarrow>
        (case string_to_SubjectToStatus (opt_initialStatusBounds c) of
           Inl e \<Rightarrow> (m, Some e)
         | Inr isb \<Rightarrow>
             let ops = \<lparr>printLevel = pl,
                        enableRamping = bool_to_BooleanType (opt_enableRamping c),
                        enableFarBounds = bool_to_BooleanType (opt_enableFarBounds c),
                        enableFlippingBounds = bool_to_BooleanType (opt_enableFlippingBounds c),
                        enableRegularisation = bool_to_BooleanType (opt_enableRegularisation c),
                        enableFullLITests = bool_to_BooleanType (opt_enableFullLITests c),
                        enableNZCTests = bool_to_BooleanType (opt_enableNZCTests c),
                        enableEqualities = bool_to_BooleanType (opt_enableEqualities c),
                        initialStatusBounds = isb\<rparr>
             in (m\<lparr>qp := Some (setOptions E ops q)\<rparr>, None)))"

subsection \<open>Solving\<close>

text \<open>
  The input slots of a solve (\<open>H\<close> and \<open>A\<close> as their nonzeros) and its output slots. An
  output slot is a pointer to the caller's buffer; null means the output is not wanted.
\<close>

record qp_arg =
  QPSOL_H :: dvec
  QPSOL_G :: dvec
  QPSOL_A :: dvec
  QPSOL_LBA :: dvec
  QPSOL_UBA :: dvec
  QPSOL_LBX :: dvec
  QPSOL_UBX :: dvec

record qp_res =
  QPSOL_X :: dptr
  QPSOL_COST :: dptr
  QPSOL_LAM_A :: dptr
  QPSOL_LAM_X :: dptr

text \<open>
  Modelled from the spec: the comparison that \<^verbatim>\<open>checkInputs\<close> (see below) makes on a
  pair of bound vectors, \<open>lowerBound \<le> upperBound\<close> componentwise, over the first \<open>k\<close>
  components.
\<close>

definition bounds_ordered :: "nat \<Rightarrow> dvec \<Rightarrow> dvec \<Rightarrow> bool" where
  "bounds_ordered k lb ub = list_all (\<lambda>(l, u). l \<le> u) (zip (take k lb) (take k ub))"

text \<open>
  Modelled from the spec: \<^verbatim>\<open>checkInputs\<close> is a method of the QP solver base class, which
  is not part of the sources covered here. The spec: input-bound checking is
  \<open>lowerBound \<le> upperBound\<close> componentwise, for the \<open>n\<close> variable bounds and the \<open>m\<close>
  constraint bounds, and a violation is a \<open>ConfigurationError\<close>.
\<close>

definition checkInputs ::
  "'sp QpoasesInterface \<Rightarrow> dvec \<Rightarrow> dvec \<Rightarrow> dvec \<Rightarrow> dvec \<Rightarrow> error option"
where
  "checkInputs self lbx ubx lba uba =
     (if bounds_ordered (n_' self) lbx ubx \<and> bounds_ordered (nc_' self) lba uba then None
      else Some ConfigurationError)"

text \<open>
  The work vector is the list \<open>wv\<close> of its cells; a pointer into it is an offset.
  \<^verbatim>\<open>double* p = w; w += k;\<close> makes \<open>p\<close> the current offset and advances \<open>w\<close> by \<open>k\<close>.
  \<open>slot p k wv\<close> are the cells of \<open>wv\<close> that the \<open>k\<close> doubles at \<open>p\<close> occupy: fewer than
  \<open>k\<close> if the work vector ends before \<open>p + k\<close>.
\<close>

definition slot :: "nat \<Rightarrow> nat \<Rightarrow> dvec \<Rightarrow> dvec" where
  "slot p k wv = take k (drop p wv)"

text \<open>
  What a call of \<^verbatim>\<open>eval\<close> leaves behind: the memory, the output slots, the calls made on
  the qpOASES object in order, the status \<^verbatim>\<open>flag\<close> the last of them returned (if the
  solver was reached), the number of cells of the work vector in each slot the call took
  from it, and the exception thrown, if any. In \<open>eval\<close>, a primed name is the content of
  the slot that the unprimed pointer addresses, after the code has filled it.
\<close>

record 'q eval_result =
  mem_out :: "'q QpoasesMemory"
  res_out :: qp_res
  calls :: "qp_call list"
  status :: "int option"
  carved :: "nat list"
  thrown :: "error option"

definition eval ::
  "('q, 'sp) env \<Rightarrow> 'sp QpoasesInterface \<Rightarrow> 'q QpoasesMemory \<Rightarrow> qp_arg \<Rightarrow> qp_res \<Rightarrow> dvec
     \<Rightarrow> 'q eval_result"
where
  "eval E self m arg res wv =
     (case (if inputs_check_' self
            then checkInputs self (QPSOL_LBX arg) (QPSOL_UBX arg) (QPSOL_LBA arg) (QPSOL_UBA arg)
            else None) of
        Some e \<Rightarrow> \<lparr>mem_out = m, res_out = res, calls = [], status = None, carved = [],
                   thrown = Some e\<rparr>
      | None \<Rightarrow>
          let n = n_' self; nc = nc_' self;
              w = 0;
              h = w; w = w + n * n;
              h' = casadi_densify E (QPSOL_H arg) (sparsity_H self) (slot h (n * n) wv) False;
              a = w; w = w + n * nc;
              a' = casadi_densify E (QPSOL_A arg) (sparsity_A self) (slot a (n * nc) wv) True;
              nWSR = max_nWSR_' self;
              cputime = max_cputime_' self;
              cputime_ptr = (if cputime \<le> 0 then None else Some cputime);
              g = w; w = w + n;
              g' = casadi_copy (QPSOL_G arg) n (slot g n wv);
              lb = w; w = w + n;
              lb' = casadi_copy (QPSOL_LBX arg) n (slot lb n wv);
              ub = w; w = w + n;
              ub' = casadi_copy (QPSOL_UBX arg) n (slot ub n wv);
              lbA = w; w = w + nc;
              lbA' = casadi_copy (QPSOL_LBA arg) nc (slot lbA nc wv);
              ubA = w; w = w + nc;
              ubA' = casadi_copy (QPSOL_UBA arg) nc (slot ubA nc wv);
              slots = map length
                        [slot h (n * n) wv, slot a (n * nc) wv, slot g n wv, slot lb n wv,
                         slot ub n wv, slot lbA nc wv, slot ubA nc wv]
          in (case qp m of
               None \<Rightarrow>
                 \<lparr>mem_out = m, res_out = res, calls = [], status = None, carved = slots,
                  thrown = Some (Undefined_behaviour ''null qp'')\<rparr>
             | Some q \<Rightarrow>
                 let (flag, q, m, cs) =
                       (if \<not> called_once m then
                          let c = (if nc = 0 then QProblemB_init h' g' lb' ub' nWSR cputime_ptr
                                   else SQProblem_init h' g' a' lb' ub' lbA' ubA' nWSR cputime_ptr);
                              (flag, q) = invoke E c q
                          in (flag, q, m\<lparr>called_once := True, qp := Some q\<rparr>, [c])
                        else if nc = 0 then
                          let (ignored, q) = invoke E QProblemB_reset q;
                              c = QProblemB_init h' g' lb' ub' nWSR cputime_ptr;
                              (flag, q) = invoke E c q
                          in (flag, q, m\<lparr>qp := Some q\<rparr>, [QProblemB_reset, c])
                        else
                          let c = SQProblem_hotstart h' g' a' lb' ub' lbA' ubA' nWSR cputime_ptr;
                              (flag, q) = invoke E c q
                          in (flag, q, m\<lparr>qp := Some q\<rparr>, [c]))
                 in if flag \<noteq> rv E ''SUCCESSFUL_RETURN'' \<and> flag \<noteq> rv E ''RET_MAX_NWSR_REACHED''
                    then
                      \<lparr>mem_out = m, res_out = res, calls = cs, status = Some flag,
                       carved = slots,
                       thrown = Some (CasadiException
                                        (''qpOASES failed: '' @ getErrorMessage (rv E) flag))\<rparr>
                    else
                      let res = (case QPSOL_COST res of
                                   None \<Rightarrow> res
                                 | Some c \<Rightarrow> res\<lparr>QPSOL_COST := Some (getObjVal E q # tl c)\<rparr>);
                          res = (case QPSOL_X res of
                                   None \<Rightarrow> res
                                 | Some x \<Rightarrow> res\<lparr>QPSOL_X := Some (getPrimalSolution E q)\<rparr>)
                      in if QPSOL_LAM_X res \<noteq> None \<or> QPSOL_LAM_A res \<noteq> None then
                           let dual = w; w = w + (n + nc);
                               dual' = getDualSolution E q;
                               dual' = casadi_scal (n + nc) (- 1) dual';
                               res = res\<lparr>QPSOL_LAM_X :=
                                           map_option (casadi_copy dual' n) (QPSOL_LAM_X res)\<rparr>;
                               res = res\<lparr>QPSOL_LAM_A :=
                                           map_option (casadi_copy (drop n dual') nc)
                                             (QPSOL_LAM_A res)\<rparr>
                           in \<lparr>mem_out = m, res_out = res, calls = cs, status = Some flag,
                               carved = slots @ [length (slot dual (n + nc) wv)], thrown = None\<rparr>
                         else
                           \<lparr>mem_out = m, res_out = res, calls = cs, status = Some flag,
                            carved = slots, thrown = None\<rparr>))"

subsection \<open>Notions for stating the properties\<close>

text \<open>
  The definitions of this subsection do not embed code; they name what the properties
  below talk about. A call is accepted if the bound check is off or finds nothing.
\<close>

definition accepted :: "'sp QpoasesInterface \<Rightarrow> qp_arg \<Rightarrow> bool" where
  "accepted self arg \<longleftrightarrow>
     (inputs_check_' self \<longrightarrow>
        checkInputs self (QPSOL_LBX arg) (QPSOL_UBX arg) (QPSOL_LBA arg) (QPSOL_UBA arg) = None)"

text \<open>The dense \<open>H\<close> and \<open>A\<close> that \<open>eval\<close> builds in the first two slots of the work vector.\<close>

definition dense_H :: "('q, 'sp) env \<Rightarrow> 'sp QpoasesInterface \<Rightarrow> qp_arg \<Rightarrow> dvec \<Rightarrow> dvec" where
  "dense_H E self arg wv =
     casadi_densify E (QPSOL_H arg) (sparsity_H self) (slot 0 (n_' self * n_' self) wv) False"

definition dense_A :: "('q, 'sp) env \<Rightarrow> 'sp QpoasesInterface \<Rightarrow> qp_arg \<Rightarrow> dvec \<Rightarrow> dvec" where
  "dense_A E self arg wv =
     casadi_densify E (QPSOL_A arg) (sparsity_A self)
       (slot (n_' self * n_' self) (n_' self * nc_' self) wv) True"

text \<open>The budget every call of an instance hands to qpOASES.\<close>

definition instance_budget :: "'sp QpoasesInterface \<Rightarrow> int \<times> real option" where
  "instance_budget self =
     (max_nWSR_' self, if max_cputime_' self \<le> 0 then None else Some (max_cputime_' self))"

text \<open>
  The cold initialisation and the warm restart with the data of a call: the dense
  matrices and the first \<open>n\<close> (\<open>nc\<close>) entries of the gradient and of each bound vector.
\<close>

definition init_call :: "('q, 'sp) env \<Rightarrow> 'sp QpoasesInterface \<Rightarrow> qp_arg \<Rightarrow> dvec \<Rightarrow> qp_call" where
  "init_call E self arg wv =
     (if nc_' self = 0 then
        QProblemB_init (dense_H E self arg wv) (take (n_' self) (QPSOL_G arg))
          (take (n_' self) (QPSOL_LBX arg)) (take (n_' self) (QPSOL_UBX arg))
          (fst (instance_budget self)) (snd (instance_budget self))
      else
        SQProblem_init (dense_H E self arg wv) (take (n_' self) (QPSOL_G arg))
          (dense_A E self arg wv)
          (take (n_' self) (QPSOL_LBX arg)) (take (n_' self) (QPSOL_UBX arg))
          (take (nc_' self) (QPSOL_LBA arg)) (take (nc_' self) (QPSOL_UBA arg))
          (fst (instance_budget self)) (snd (instance_budget self)))"

definition hotstart_call ::
  "('q, 'sp) env \<Rightarrow> 'sp QpoasesInterface \<Rightarrow> qp_arg \<Rightarrow> dvec \<Rightarrow> qp_call"
where
  "hotstart_call E self arg wv =
     SQProblem_hotstart (dense_H E self arg wv) (take (n_' self) (QPSOL_G arg))
       (dense_A E self arg wv)
       (take (n_' self) (QPSOL_LBX arg)) (take (n_' self) (QPSOL_UBX arg))
       (take (nc_' self) (QPSOL_LBA arg)) (take (nc_' self) (QPSOL_UBA arg))
       (fst (instance_budget self)) (snd (instance_budget self))"

text \<open>Running a sequence of calls on a solver object: the last status and the final object.\<close>

definition run_calls :: "('q, 'sp) env \<Rightarrow> qp_call list \<Rightarrow> 'q \<Rightarrow> int \<times> 'q" where
  "run_calls E cs q = foldl (\<lambda>(f, q) c. invoke E c q) (0, q) cs"

text \<open>A status other than the two that \<open>eval\<close> lets pass.\<close>

definition hard_failure :: "('q, 'sp) env \<Rightarrow> int \<Rightarrow> bool" where
  "hard_failure E f \<longleftrightarrow> f \<noteq> rv E ''SUCCESSFUL_RETURN'' \<and> f \<noteq> rv E ''RET_MAX_NWSR_REACHED''"

text \<open>The sizes of the eight slots \<open>eval\<close> takes from the work vector, in order.\<close>

definition slot_sizes :: "nat \<Rightarrow> nat \<Rightarrow> nat list" where
  "slot_sizes n nc = [n * n, n * nc, n, n, n, nc, nc, n + nc]"

subsection \<open>A scripted backend and sample problems\<close>

text \<open>
  A stand-in for qpOASES whose solver object counts the calls made on it. A reset
  returns 0, every other call returns the given status; the solution it reports is
  fixed. Densification treats the nonzeros as already dense.
\<close>

definition mock_env :: "int \<Rightarrow> (nat, unit) env" where
  "mock_env flag =
     \<lparr>rv = rv_seq,
      casadi_densify = (\<lambda>x sp y tr. casadi_copy x (length y) y),
      new_QProblemB = (\<lambda>n. 0),
      new_SQProblem = (\<lambda>n nc. 0),
      setOptions = (\<lambda>ops q. q),
      invoke = (\<lambda>c q. (if c = QProblemB_reset then 0 else flag, Suc q)),
      getObjVal = (\<lambda>q. - 8),
      getPrimalSolution = (\<lambda>q. [2, 2]),
      getDualSolution = (\<lambda>q. [5, 1, 3, 7])\<rparr>"

definition default_config :: config where
  "default_config =
     \<lparr>opt_nWSR = None, opt_CPUtime = None, opt_printLevel = ''medium'',
      opt_enableRamping = True, opt_enableFarBounds = True, opt_enableFlippingBounds = True,
      opt_enableRegularisation = False, opt_enableFullLITests = False,
      opt_enableNZCTests = False, opt_enableEqualities = False,
      opt_initialStatusBounds = ''lower''\<rparr>"

text \<open>An instance before \<^verbatim>\<open>init\<close>, with \<open>n\<close> variables, \<open>nc\<close> constraints and the given options.\<close>

definition base_instance :: "nat \<Rightarrow> nat \<Rightarrow> bool \<Rightarrow> config \<Rightarrow> unit QpoasesInterface" where
  "base_instance n nc chk c =
     \<lparr>n_' = n, nc_' = nc, inputs_check_' = chk, sparsity_H = (), sparsity_A = (),
      options = c, max_nWSR_' = 0, max_cputime_' = 0, sz_w = 0\<rparr>"

text \<open>The same instance after \<^verbatim>\<open>init\<close> with default options (see \<open>init_sample\<close> below).\<close>

definition sample_instance :: "nat \<Rightarrow> nat \<Rightarrow> bool \<Rightarrow> unit QpoasesInterface" where
  "sample_instance n nc chk =
     (base_instance n nc chk default_config)
       \<lparr>max_nWSR_' := int (5 * (n + nc)), max_cputime_' := - 1,
        sz_w := n * n + n * nc + 4 * n + 3 * nc\<rparr>"

text \<open>
  Two variables, no constraint: \<open>H = diag(2, 2)\<close>, \<open>g = (-4, -4)\<close>, \<open>-10 \<le> x \<le> 10\<close>.
  And the same with the two constraints \<open>-1 \<le> x\<^sub>1 + x\<^sub>2 \<le> 1\<close> and \<open>-1 \<le> x\<^sub>1 - x\<^sub>2 \<le> 1\<close>.
\<close>

definition arg_box :: qp_arg where
  "arg_box =
     \<lparr>QPSOL_H = [2, 0, 0, 2], QPSOL_G = [- 4, - 4], QPSOL_A = [],
      QPSOL_LBA = [], QPSOL_UBA = [], QPSOL_LBX = [- 10, - 10], QPSOL_UBX = [10, 10]\<rparr>"

definition arg_con :: qp_arg where
  "arg_con =
     \<lparr>QPSOL_H = [2, 0, 0, 2], QPSOL_G = [- 4, - 4], QPSOL_A = [1, 1, 1, - 1],
      QPSOL_LBA = [- 1, - 1], QPSOL_UBA = [1, 1],
      QPSOL_LBX = [- 10, - 10], QPSOL_UBX = [10, 10]\<rparr>"

text \<open>Malformed bounds: the lower bound of the second variable exceeds its upper bound.\<close>

definition arg_bad :: qp_arg where
  "arg_bad = arg_box\<lparr>QPSOL_LBX := [- 10, 11]\<rparr>"

definition res_all :: "nat \<Rightarrow> nat \<Rightarrow> qp_res" where
  "res_all n nc =
     \<lparr>QPSOL_X = Some (replicate n 7), QPSOL_COST = Some [7],
      QPSOL_LAM_A = Some (replicate nc 7), QPSOL_LAM_X = Some (replicate n 7)\<rparr>"

definition fresh_memory :: "nat QpoasesMemory" where
  "fresh_memory = \<lparr>called_once = False, qp = Some 0\<rparr>"

definition primed_memory :: "nat QpoasesMemory" where
  "primed_memory = \<lparr>called_once = True, qp = Some 1\<rparr>"

section \<open>Properties\<close>

subsection \<open>Decimal rendering\<close>

lemma read_nat_snoc: "read_nat (xs @ [c]) = 10 * read_nat xs + (of_char c - 48)"
  by (simp add: read_nat_def)

lemma digit_cases: "d < (10::nat) \<Longrightarrow> d \<in> {0, 1, 2, 3, 4, 5, 6, 7, 8, 9}"
  by auto

lemma of_char_digit: "d < 10 \<Longrightarrow> (of_char (digit_char d) :: nat) = 48 + d"
  using digit_cases [of d] by (auto simp: digit_char_def)

lemma read_show_nat: "read_nat (show_nat n) = n"
proof (induction n rule: show_nat.induct)
  case (1 n)
  show ?case
  proof (cases "n < 10")
    case True
    then show ?thesis
      by (subst show_nat.simps) (simp add: read_nat_def of_char_digit)
  next
    case False
    with 1 have "read_nat (show_nat (n div 10)) = n div 10" by simp
    moreover have "(of_char (digit_char (n mod 10)) :: nat) = 48 + n mod 10"
      by (rule of_char_digit) simp
    ultimately show ?thesis using False
      by (subst show_nat.simps) (simp add: read_nat_snoc)
  qed
qed

lemma show_nat_digits: "c \<in> set (show_nat n) \<Longrightarrow> \<exists>d::nat. d < 10 \<and> c = digit_char d"
proof (induction n rule: show_nat.induct)
  case (1 n)
  show ?case
  proof (cases "n < 10")
    case True
    with 1(2) have "c = digit_char n"
      by (subst (asm) show_nat.simps) simp
    with True show ?thesis by blast
  next
    case False
    with 1(2) have "c \<in> set (show_nat (n div 10)) \<or> c = digit_char (n mod 10)"
      by (subst (asm) show_nat.simps) auto
    then show ?thesis
    proof
      assume "c \<in> set (show_nat (n div 10))"
      with 1(1) False show ?thesis by simp
    next
      assume "c = digit_char (n mod 10)"
      moreover have "n mod 10 < 10" by simp
      ultimately show ?thesis by blast
    qed
  qed
qed

lemma digit_not_stop: "d < 10 \<Longrightarrow> digit_char d \<noteq> CHR ''.''"
proof
  assume d: "d < 10" and "digit_char d = CHR ''.''"
  then have "(of_char (digit_char d) :: nat) = of_char CHR ''.''" by simp
  with of_char_digit [OF d] show False by simp
qed

lemma digit_not_minus: "d < 10 \<Longrightarrow> digit_char d \<noteq> CHR ''-''"
proof
  assume d: "d < 10" and "digit_char d = CHR ''-''"
  then have "(of_char (digit_char d) :: nat) = of_char CHR ''-''" by simp
  with of_char_digit [OF d] show False by simp
qed

lemma show_nat_not_empty: "show_nat n \<noteq> []"
  by (subst show_nat.simps) simp

lemma show_nat_no_stop: "CHR ''.'' \<notin> set (show_nat n)"
proof
  assume "CHR ''.'' \<in> set (show_nat n)"
  then obtain d :: nat where "d < 10" and "CHR ''.'' = digit_char d"
    using show_nat_digits by blast
  with digit_not_stop [of d] show False by simp
qed

lemma show_nat_no_minus: "CHR ''-'' \<notin> set (show_nat n)"
proof
  assume "CHR ''-'' \<in> set (show_nat n)"
  then obtain d :: nat where "d < 10" and "CHR ''-'' = digit_char d"
    using show_nat_digits by blast
  with digit_not_minus [of d] show False by simp
qed

lemma read_show_int: "read_int (show_int i) = i"
proof (cases "i < 0")
  case True
  then show ?thesis by (simp add: show_int_def read_int_def read_show_nat)
next
  case False
  obtain c cs where s: "show_nat (nat i) = c # cs"
    using show_nat_not_empty by (cases "show_nat (nat i)") auto
  then have "c \<noteq> CHR ''-''"
    using show_nat_no_minus [of "nat i"] by auto
  moreover have "read_nat (c # cs) = nat i"
    using read_show_nat [of "nat i"] s by simp
  ultimately show ?thesis using False s
    by (simp add: show_int_def read_int_def)
qed

lemma show_int_no_stop: "CHR ''.'' \<notin> set (show_int i)"
  using show_nat_no_stop by (simp add: show_int_def)

lemma takeWhile_stop: "c \<notin> set xs \<Longrightarrow> takeWhile (\<lambda>x. x \<noteq> c) (xs @ c # ys) = xs"
  by (induction xs) auto

lemma flag_of_default_message_inverse:
  "flag_of_default_message
     (''Unknown error flag: '' @ show_int i @ ''. Consult qpOASES documentation.'') = i"
proof -
  have "takeWhile (\<lambda>c. c \<noteq> CHR ''.'') (show_int i @ CHR ''.'' # '' Consult qpOASES documentation.'')
        = show_int i"
    by (rule takeWhile_stop) (rule show_int_no_stop)
  then show ?thesis
    by (simp add: flag_of_default_message_def read_show_int)
qed

lemma show_int_9999: "show_int 9999 = ''9999''"
  by (simp add: show_int_def show_nat.simps digit_char_def)

subsection \<open>The table of the error mapper\<close>

lemma case_table_messages_not_empty: "(label, msg) \<in> set case_table \<Longrightarrow> msg \<noteq> []"
  unfolding case_table_def by auto

lemma index_from_bound: "index_from k l xs < int (k + length xs)"
proof (induction xs arbitrary: k)
  case Nil
  show ?case by simp
next
  case (Cons x xs)
  from Cons [of "Suc k"] show ?case by simp
qed

lemma index_from_lower: "- 1 \<le> index_from k l xs"
  by (induction xs arbitrary: k) simp_all

lemma length_case_table: "length case_table = 131"
  by (simp add: case_table_def)

lemma rv_seq_range: "- 1 \<le> rv_seq l \<and> rv_seq l < 131"
  using index_from_bound [of 0 l "map fst case_table"] index_from_lower [of 0 l "map fst case_table"]
  by (simp add: rv_seq_def length_case_table)

lemma rv_seq_SUCCESSFUL_RETURN: "rv_seq ''SUCCESSFUL_RETURN'' = 0"
  by (simp add: rv_seq_def case_table_def)

lemma rv_seq_RET_MAX_NWSR_REACHED: "rv_seq ''RET_MAX_NWSR_REACHED'' = 62"
  by (simp add: rv_seq_def case_table_def)

lemma SUCCESSFUL_RETURN_first:
  "case_table = (''SUCCESSFUL_RETURN'', ''Successful return.'') # tl case_table"
  by (simp add: case_table_def)

lemma find_first: "P x \<Longrightarrow> xs = x # ys \<Longrightarrow> find P xs = Some x"
  by simp

lemma getErrorMessage_rv_seq_0: "getErrorMessage rv_seq 0 = ''Successful return.''"
proof -
  have "find (\<lambda>(label, msg). rv_seq label = 0) case_table
          = Some (''SUCCESSFUL_RETURN'', ''Successful return.'')"
    by (rule find_first [OF _ SUCCESSFUL_RETURN_first]) (simp add: rv_seq_SUCCESSFUL_RETURN)
  then show ?thesis
    by (simp add: getErrorMessage_def)
qed

text \<open>
  C5: the error mapper is total. Whatever values \<open>r\<close> the enumerators have and whatever
  integer \<open>flag\<close> the backend returns, \<open>getErrorMessage\<close> yields a non-empty message. If
  \<open>flag\<close> is the value of a \<^verbatim>\<open>case\<close> label, the message is the one of such a label. If
  it is the value of no label, the message is the default one, which spells the flag out
  in decimal, so that the raw code can be read back from it.
\<close>

theorem getErrorMessage_total:
  "getErrorMessage r flag \<noteq> []
   \<and> (flag \<in> r ` fst ` set case_table \<longrightarrow>
        (\<exists>label msg. (label, msg) \<in> set case_table \<and> r label = flag
                      \<and> getErrorMessage r flag = msg))
   \<and> (flag \<notin> r ` fst ` set case_table \<longrightarrow>
        getErrorMessage r flag
          = ''Unknown error flag: '' @ show_int flag @ ''. Consult qpOASES documentation.''
        \<and> flag_of_default_message (getErrorMessage r flag) = flag)"
proof (cases "find (\<lambda>(label, msg). r label = flag) case_table")
  case None
  then have no: "flag \<notin> r ` fst ` set case_table"
    by (force simp: find_None_iff)
  from None have msg: "getErrorMessage r flag
      = ''Unknown error flag: '' @ show_int flag @ ''. Consult qpOASES documentation.''"
    by (simp add: getErrorMessage_def)
  have rt: "flag_of_default_message (getErrorMessage r flag) = flag"
    unfolding msg by (rule flag_of_default_message_inverse)
  from msg have "getErrorMessage r flag \<noteq> []" by simp
  with no msg rt show ?thesis by blast
next
  case (Some p)
  obtain label msg where p: "p = (label, msg)" by (cases p)
  from Some p have mem: "(label, msg) \<in> set case_table" and hit: "r label = flag"
    by (auto simp: find_Some_iff in_set_conv_nth)
  from Some p have res: "getErrorMessage r flag = msg"
    by (simp add: getErrorMessage_def)
  from mem hit have "flag \<in> r ` fst ` set case_table" by force
  with mem hit res case_table_messages_not_empty [OF mem] show ?thesis by auto
qed

theorem getErrorMessage_total_witness:
  "9999 \<notin> rv_seq ` fst ` set case_table
   \<and> getErrorMessage rv_seq 9999 = ''Unknown error flag: 9999. Consult qpOASES documentation.''
   \<and> flag_of_default_message (getErrorMessage rv_seq 9999) = 9999
   \<and> 0 \<in> rv_seq ` fst ` set case_table
   \<and> getErrorMessage rv_seq 0 = ''Successful return.''"
proof -
  have out: "9999 \<notin> rv_seq ` fst ` set case_table"
  proof
    assume "9999 \<in> rv_seq ` fst ` set case_table"
    then obtain l where "rv_seq l = 9999" by auto
    with rv_seq_range [of l] show False by simp
  qed
  have "(''SUCCESSFUL_RETURN'', ''Successful return.'') \<in> set case_table"
    by (subst SUCCESSFUL_RETURN_first) simp
  then have inn: "0 \<in> rv_seq ` fst ` set case_table"
    using rv_seq_SUCCESSFUL_RETURN by force
  from out getErrorMessage_total [of rv_seq 9999]
  have "getErrorMessage rv_seq 9999
          = ''Unknown error flag: '' @ show_int 9999 @ ''. Consult qpOASES documentation.''"
    and "flag_of_default_message (getErrorMessage rv_seq 9999) = 9999"
    by blast+
  with out inn getErrorMessage_total [of rv_seq 0] show ?thesis
    by (simp add: show_int_9999 getErrorMessage_rv_seq_0)
qed

subsection \<open>Option conversions\<close>

text \<open>
  C10: the option conversions are mutually inverse on their supported domains. Each of
  the five print levels the conversion names is rendered as a string that
  \<open>string_to_PrintLevel\<close> maps back to it; \<open>BooleanType_to_bool\<close> undoes
  \<open>bool_to_BooleanType\<close> on both booleans; and \<open>string_to_PrintLevel\<close> throws on every
  string other than the five names instead of returning a level.
\<close>

theorem option_conversions_inverse:
  "(p \<in> {PL_TABULAR, PL_NONE, PL_LOW, PL_MEDIUM, PL_HIGH} \<longrightarrow>
      (\<exists>s. PrintLevel_to_string p = Inr s \<and> string_to_PrintLevel s = Inr p))
   \<and> BooleanType_to_bool (bool_to_BooleanType b) = Inr b
   \<and> (t \<notin> {''tabular'', ''none'', ''low'', ''medium'', ''high''} \<longrightarrow>
        string_to_PrintLevel t = Inl (CasadiException ''not_implemented''))"
proof (intro conjI impI)
  assume "p \<in> {PL_TABULAR, PL_NONE, PL_LOW, PL_MEDIUM, PL_HIGH}"
  then show "\<exists>s. PrintLevel_to_string p = Inr s \<and> string_to_PrintLevel s = Inr p"
    by (cases p) (simp_all add: string_to_PrintLevel_def)
next
  show "BooleanType_to_bool (bool_to_BooleanType b) = Inr b"
    by (cases b) (simp_all add: bool_to_BooleanType_def)
next
  assume "t \<notin> {''tabular'', ''none'', ''low'', ''medium'', ''high''}"
  then show "string_to_PrintLevel t = Inl (CasadiException ''not_implemented'')"
    by (simp add: string_to_PrintLevel_def casadi_error_def)
qed

theorem option_conversions_inverse_witness:
  "PL_LOW \<in> {PL_TABULAR, PL_NONE, PL_LOW, PL_MEDIUM, PL_HIGH}
   \<and> PrintLevel_to_string PL_LOW = Inr ''low'' \<and> string_to_PrintLevel ''low'' = Inr PL_LOW
   \<and> BooleanType_to_bool (bool_to_BooleanType True) = Inr True
   \<and> ''debug_iter'' \<notin> {''tabular'', ''none'', ''low'', ''medium'', ''high''}
   \<and> string_to_PrintLevel ''debug_iter'' = Inl (CasadiException ''not_implemented'')"
  using option_conversions_inverse [of PL_LOW True "''debug_iter''"]
  by (simp add: string_to_PrintLevel_def)

subsection \<open>Copying and scaling\<close>

lemma casadi_copy_slot: "casadi_copy x n (slot p n wv) = take n x"
  by (simp add: casadi_copy_def slot_def)

lemma take_casadi_scal:
  "n \<le> k \<Longrightarrow> take n (casadi_scal k alpha d) = map (\<lambda>v. v * alpha) (take n d)"
proof (cases "k \<le> length d")
  case True
  assume "n \<le> k"
  with True show ?thesis
    by (simp add: casadi_scal_def take_map min_def)
next
  case False
  then show ?thesis
    by (simp add: casadi_scal_def take_map)
qed

lemma drop_casadi_scal: "drop n (casadi_scal (n + k) alpha d) = casadi_scal k alpha (drop n d)"
proof (cases "n + k \<le> length d")
  case True
  then show ?thesis
    by (simp add: casadi_scal_def drop_map drop_take min_def add.commute)
next
  case False
  then show ?thesis
    by (simp add: casadi_scal_def drop_map drop_take)
qed

lemma negate_by_scal: "map (\<lambda>v. v * (- 1)) xs = map uminus (xs :: real list)"
  by simp

lemma casadi_copy_0: "casadi_copy x 0 y = y"
  by (simp add: casadi_copy_def)

lemma dual_to_LAM_X:
  "n \<le> k \<Longrightarrow> casadi_copy (casadi_scal k (- 1) d) n y = map uminus (take n d) @ drop n y"
  by (simp add: casadi_copy_def take_casadi_scal)

lemma dual_to_LAM_A:
  "casadi_copy (drop n (casadi_scal (n + nc) (- 1) d)) nc y
     = map uminus (take nc (drop n d)) @ drop nc y"
  by (simp add: casadi_copy_def drop_casadi_scal take_casadi_scal)

subsection \<open>The bound check\<close>

lemma bounds_ordered_iff:
  "bounds_ordered k lb ub
     \<longleftrightarrow> (\<forall>i. i < k \<and> i < length lb \<and> i < length ub \<longrightarrow> lb ! i \<le> ub ! i)"
  by (auto simp: bounds_ordered_def list_all_length)

lemma checkInputs_rejects:
  assumes "(\<exists>i. i < n_' self \<and> i < length lbx \<and> i < length ubx \<and> ubx ! i < lbx ! i)
           \<or> (\<exists>i. i < nc_' self \<and> i < length lba \<and> i < length uba \<and> uba ! i < lba ! i)"
  shows "checkInputs self lbx ubx lba uba = Some ConfigurationError"
  using assms by (auto simp: checkInputs_def bounds_ordered_iff not_le)

subsection \<open>The branches of a solve\<close>

lemma check_accepted:
  "accepted self arg \<Longrightarrow>
     (if inputs_check_' self
      then checkInputs self (QPSOL_LBX arg) (QPSOL_UBX arg) (QPSOL_LBA arg) (QPSOL_UBA arg)
      else None) = None"
  by (simp add: accepted_def)

lemma check_rejected:
  "\<not> accepted self arg \<Longrightarrow>
     (if inputs_check_' self
      then checkInputs self (QPSOL_LBX arg) (QPSOL_UBX arg) (QPSOL_LBA arg) (QPSOL_UBA arg)
      else None) = Some ConfigurationError"
  by (auto simp: accepted_def checkInputs_def)

lemma eval_rejected:
  assumes "\<not> accepted self arg"
  shows "eval E self m arg res wv
           = \<lparr>mem_out = m, res_out = res, calls = [], status = None, carved = [],
              thrown = Some ConfigurationError\<rparr>"
  unfolding eval_def check_rejected [OF assms] by simp

lemma eval_null_qp:
  assumes "accepted self arg" and "qp m = None"
  shows "mem_out (eval E self m arg res wv) = m"
    and "res_out (eval E self m arg res wv) = res"
    and "calls (eval E self m arg res wv) = []"
    and "status (eval E self m arg res wv) = None"
    and "thrown (eval E self m arg res wv) = Some (Undefined_behaviour ''null qp'')"
  unfolding eval_def check_accepted [OF assms(1)] using assms(2)
  by (simp_all add: Let_def)

lemma run_calls_simps:
  "run_calls E [c] q = invoke E c q"
  "run_calls E [c, d] q = invoke E d (snd (invoke E c q))"
  by (simp_all add: run_calls_def split_def)

lemma calls_eval:
  assumes "accepted self arg" and "qp m = Some q"
  shows "calls (eval E self m arg res wv)
           = (if \<not> called_once m then [init_call E self arg wv]
              else if nc_' self = 0 then [QProblemB_reset, init_call E self arg wv]
              else [hotstart_call E self arg wv])"
  unfolding eval_def check_accepted [OF assms(1)] using assms(2)
  by (cases "called_once m"; cases "nc_' self = 0")
     (simp_all add: Let_def split_def init_call_def hotstart_call_def
        dense_H_def dense_A_def instance_budget_def casadi_copy_slot)

lemma status_eval:
  assumes "accepted self arg" and "qp m = Some q"
  shows "status (eval E self m arg res wv)
           = Some (fst (run_calls E (calls (eval E self m arg res wv)) q))"
  unfolding calls_eval [OF assms]
  unfolding eval_def check_accepted [OF assms(1)] using assms(2)
  by (cases "called_once m"; cases "nc_' self = 0")
     (simp_all add: Let_def split_def init_call_def hotstart_call_def run_calls_simps
        dense_H_def dense_A_def instance_budget_def casadi_copy_slot)

lemma mem_eval:
  assumes "accepted self arg" and "qp m = Some q"
  shows "mem_out (eval E self m arg res wv)
           = m\<lparr>called_once := True,
               qp := Some (snd (run_calls E (calls (eval E self m arg res wv)) q))\<rparr>"
  unfolding calls_eval [OF assms]
  unfolding eval_def check_accepted [OF assms(1)] using assms(2)
  by (cases "called_once m"; cases "nc_' self = 0")
     (simp_all add: Let_def split_def init_call_def hotstart_call_def run_calls_simps
        dense_H_def dense_A_def instance_budget_def casadi_copy_slot)

lemma status_reached:
  assumes "status (eval E self m arg res wv) = Some f"
  shows "accepted self arg \<and> (\<exists>q. qp m = Some q)"
proof (cases "accepted self arg")
  case False
  with assms show ?thesis by (simp add: eval_rejected)
next
  case True
  with assms eval_null_qp(4) [OF True, of m E res wv] show ?thesis
    by (cases "qp m") auto
qed

lemma thrown_reached:
  assumes "accepted self arg" and "qp m = Some q"
  shows "thrown (eval E self m arg res wv)
           = (if hard_failure E (fst (run_calls E (calls (eval E self m arg res wv)) q))
              then Some (CasadiException (''qpOASES failed: ''
                     @ getErrorMessage (rv E)
                         (fst (run_calls E (calls (eval E self m arg res wv)) q))))
              else None)"
  unfolding calls_eval [OF assms]
  unfolding eval_def check_accepted [OF assms(1)] using assms(2)
  by (cases "called_once m"; cases "nc_' self = 0")
     (simp_all add: Let_def split_def init_call_def hotstart_call_def run_calls_simps
        dense_H_def dense_A_def instance_budget_def casadi_copy_slot hard_failure_def)

lemma thrown_eval:
  assumes "status (eval E self m arg res wv) = Some f"
  shows "thrown (eval E self m arg res wv)
           = (if hard_failure E f
              then Some (CasadiException (''qpOASES failed: '' @ getErrorMessage (rv E) f))
              else None)"
proof -
  from status_reached [OF assms] obtain q where a: "accepted self arg" and q: "qp m = Some q"
    by blast
  from status_eval [OF a q, of E res wv] assms
  have "fst (run_calls E (calls (eval E self m arg res wv)) q) = f" by simp
  with thrown_reached [OF a q, of E res wv] show ?thesis by simp
qed


lemma thrown_None_status:
  assumes "thrown (eval E self m arg res wv) = None"
  shows "\<exists>f. status (eval E self m arg res wv) = Some f \<and> \<not> hard_failure E f"
proof (cases "accepted self arg")
  case False
  with assms show ?thesis by (simp add: eval_rejected)
next
  case True
  show ?thesis
  proof (cases "qp m")
    case None
    with assms eval_null_qp(5) [OF True None, of E res wv] show ?thesis by simp
  next
    case (Some q)
    from status_eval [OF True Some] obtain f where f: "status (eval E self m arg res wv) = Some f"
      by blast
    with assms thrown_eval [OF f] show ?thesis by (auto split: if_splits)
  qed
qed


lemma res_reached_success:
  assumes "accepted self arg" and "qp m = Some q"
      and "\<not> hard_failure E (fst (run_calls E (calls (eval E self m arg res wv)) q))"
  shows "QPSOL_COST (res_out (eval E self m arg res wv))
           = map_option
               (\<lambda>c. getObjVal E (snd (run_calls E (calls (eval E self m arg res wv)) q)) # tl c)
               (QPSOL_COST res)
     \<and> QPSOL_X (res_out (eval E self m arg res wv))
           = map_option
               (\<lambda>x. getPrimalSolution E (snd (run_calls E (calls (eval E self m arg res wv)) q)))
               (QPSOL_X res)
     \<and> QPSOL_LAM_X (res_out (eval E self m arg res wv))
           = map_option
               (\<lambda>y. map uminus
                      (take (n_' self)
                         (getDualSolution E
                            (snd (run_calls E (calls (eval E self m arg res wv)) q))))
                    @ drop (n_' self) y)
               (QPSOL_LAM_X res)
     \<and> QPSOL_LAM_A (res_out (eval E self m arg res wv))
           = map_option
               (\<lambda>y. map uminus
                      (take (nc_' self)
                         (drop (n_' self)
                            (getDualSolution E
                               (snd (run_calls E (calls (eval E self m arg res wv)) q)))))
                    @ drop (nc_' self) y)
               (QPSOL_LAM_A res)"
  using assms(3) unfolding calls_eval [OF assms(1,2)]
  unfolding eval_def check_accepted [OF assms(1)] using assms(2)
  by (cases "called_once m"; cases "nc_' self = 0";
      cases "QPSOL_COST res"; cases "QPSOL_X res"; cases "QPSOL_LAM_X res"; cases "QPSOL_LAM_A res")
     (simp_all add: Let_def split_def run_calls_simps hard_failure_def [symmetric]
        init_call_def hotstart_call_def dense_H_def dense_A_def instance_budget_def
        casadi_copy_slot casadi_copy_0 dual_to_LAM_X dual_to_LAM_A)

lemma eval_outputs:
  assumes "thrown (eval E self m arg res wv) = None"
  shows "\<exists>q'. qp (mem_out (eval E self m arg res wv)) = Some q'
     \<and> QPSOL_COST (res_out (eval E self m arg res wv))
         = map_option (\<lambda>c. getObjVal E q' # tl c) (QPSOL_COST res)
     \<and> QPSOL_X (res_out (eval E self m arg res wv))
         = map_option (\<lambda>x. getPrimalSolution E q') (QPSOL_X res)
     \<and> QPSOL_LAM_X (res_out (eval E self m arg res wv))
         = map_option (\<lambda>y. map uminus (take (n_' self) (getDualSolution E q')) @ drop (n_' self) y)
             (QPSOL_LAM_X res)
     \<and> QPSOL_LAM_A (res_out (eval E self m arg res wv))
         = map_option (\<lambda>y. map uminus (take (nc_' self) (drop (n_' self) (getDualSolution E q')))
                             @ drop (nc_' self) y)
             (QPSOL_LAM_A res)"
proof -
  from thrown_None_status [OF assms] obtain f
    where f: "status (eval E self m arg res wv) = Some f" and ok: "\<not> hard_failure E f"
    by blast
  from status_reached [OF f] obtain q where a: "accepted self arg" and q: "qp m = Some q"
    by blast
  from status_eval [OF a q, of E res wv] f
  have "fst (run_calls E (calls (eval E self m arg res wv)) q) = f" by simp
  with ok have nf: "\<not> hard_failure E (fst (run_calls E (calls (eval E self m arg res wv)) q))"
    by simp
  have "qp (mem_out (eval E self m arg res wv))
          = Some (snd (run_calls E (calls (eval E self m arg res wv)) q))"
    by (simp add: mem_eval [OF a q])
  with res_reached_success [OF a q nf] show ?thesis by simp
qed

subsection \<open>Slots of the work vector\<close>

lemma length_slot: "length (slot p k wv) = min k (length wv - p)"
  by (simp add: slot_def)

lemma carved_eval:
  "carved (eval E self m arg res wv)
     = take (length (carved (eval E self m arg res wv)))
         (map (\<lambda>(p, k). length (slot p k wv))
            (zip (map (\<lambda>i. sum_list (take i (slot_sizes (n_' self) (nc_' self)))) [0 ..< 8])
                 (slot_sizes (n_' self) (nc_' self))))"
proof (cases "accepted self arg")
  case False
  then show ?thesis by (simp add: eval_rejected)
next
  case True
  have upt8: "[0 ..< 8] = [0, 1, 2, 3, 4, 5, 6, 7]"
    by (simp add: upt_rec)
  show ?thesis
    unfolding eval_def check_accepted [OF True] upt8
    by (cases "qp m"; cases "called_once m"; cases "nc_' self = 0";
        cases "QPSOL_LAM_X res"; cases "QPSOL_LAM_A res")
       (simp_all add: Let_def split_def slot_sizes_def add.assoc
          split: option.split)
qed

lemma carved_full:
  assumes "sum_list (slot_sizes (n_' self) (nc_' self)) \<le> length wv"
  shows "carved (eval E self m arg res wv)
           = take (length (carved (eval E self m arg res wv))) (slot_sizes (n_' self) (nc_' self))"
proof -
  have upt8: "[0 ..< 8] = [0, 1, 2, 3, 4, 5, 6, 7]"
    by (simp add: upt_rec)
  from assms
  have "map (\<lambda>(p, k). length (slot p k wv))
          (zip (map (\<lambda>i. sum_list (take i (slot_sizes (n_' self) (nc_' self)))) [0 ..< 8])
               (slot_sizes (n_' self) (nc_' self)))
        = slot_sizes (n_' self) (nc_' self)"
    unfolding upt8 by (simp add: slot_sizes_def length_slot)
  with carved_eval [of E self m arg res wv] show ?thesis by simp
qed

lemma length_carved:
  "length (carved (eval E self m arg res wv)) \<in> {0, 7, 8}"
proof (cases "accepted self arg")
  case False
  then show ?thesis by (simp add: eval_rejected)
next
  case True
  show ?thesis
    unfolding eval_def check_accepted [OF True]
    by (cases "qp m"; cases "called_once m"; cases "nc_' self = 0";
        cases "QPSOL_LAM_X res"; cases "QPSOL_LAM_A res")
       (simp_all add: Let_def split_def)
qed

subsection \<open>Initialisation\<close>

lemma init_Inr:
  assumes "init s = Inr s'"
  shows "n_' s' = n_' s" and "nc_' s' = nc_' s" and "inputs_check_' s' = inputs_check_' s"
    and "options s' = options s"
    and "sz_w s' = sz_w s + (n_' s * n_' s + n_' s * nc_' s + 4 * n_' s + 3 * nc_' s)"
    and "max_nWSR_' s' = (case opt_nWSR (options s) of
                            Some k \<Rightarrow> k
                          | None \<Rightarrow> int (5 * (n_' s + nc_' s)))"
    and "max_cputime_' s' = (case opt_CPUtime (options s) of Some t \<Rightarrow> t | None \<Rightarrow> - 1)"
    and "case opt_CPUtime (options s) of Some t \<Rightarrow> 0 < t | None \<Rightarrow> True"
  using assms
  by (auto simp: init_def alloc_w_def casadi_assert_def Let_def
           split: option.splits if_splits sum.splits)

lemma init_succeeds:
  assumes "int (n_' s * n_' s) \<le> INT_MAX" and "int (n_' s * nc_' s) \<le> INT_MAX"
      and "int (n_' s + nc_' s) \<le> INT_MAX"
      and "case opt_nWSR (options s) of
             Some k \<Rightarrow> 0 \<le> k
           | None \<Rightarrow> int (5 * (n_' s + nc_' s)) \<le> INT_MAX"
      and "case opt_CPUtime (options s) of Some t \<Rightarrow> 0 < t | None \<Rightarrow> True"
  shows "\<exists>s'. init s = Inr s'"
  using assms
  by (auto simp: init_def casadi_assert_def Let_def split: option.splits)

lemma init_memory_fresh:
  "called_once (fst (init_memory E self m0)) = False"
  "\<exists>q. qp (fst (init_memory E self m0)) = Some q"
  by (auto simp: init_memory_def Let_def split: sum.splits)

lemma called_once_stays:
  assumes "called_once m"
  shows "called_once (mem_out (eval E self m arg res wv))"
proof (cases "accepted self arg")
  case False
  with assms show ?thesis by (simp add: eval_rejected)
next
  case True
  with assms show ?thesis
    by (cases "qp m") (simp_all add: eval_null_qp mem_eval)
qed

subsection \<open>The sample problems\<close>

lemma sample_accepted:
  "accepted (sample_instance 2 0 True) arg_box"
  "accepted (sample_instance 2 2 True) arg_con"
  "\<not> accepted (sample_instance 2 0 True) arg_bad"
  "accepted (sample_instance 2 0 False) arg_bad"
  by (simp_all add: accepted_def checkInputs_def bounds_ordered_def sample_instance_def
        base_instance_def arg_box_def arg_con_def arg_bad_def)

lemma sample_init_call_box:
  "init_call (mock_env f) (sample_instance 2 0 chk) arg_box (replicate 12 0)
     = QProblemB_init [2, 0, 0, 2] [- 4, - 4] [- 10, - 10] [10, 10] 10 None"
  by (simp add: init_call_def dense_H_def instance_budget_def mock_env_def sample_instance_def
        base_instance_def arg_box_def slot_def casadi_copy_def)

lemma sample_init_call_bad:
  "init_call (mock_env f) (sample_instance 2 0 chk) arg_bad (replicate 12 0)
     = QProblemB_init [2, 0, 0, 2] [- 4, - 4] [- 10, 11] [10, 10] 10 None"
  by (simp add: init_call_def dense_H_def instance_budget_def mock_env_def sample_instance_def
        base_instance_def arg_box_def arg_bad_def slot_def casadi_copy_def)

lemma sample_init_call_con:
  "init_call (mock_env f) (sample_instance 2 2 chk) arg_con (replicate 22 0)
     = SQProblem_init [2, 0, 0, 2] [- 4, - 4] [1, 1, 1, - 1] [- 10, - 10] [10, 10] [- 1, - 1] [1, 1] 20 None"
  by (simp add: init_call_def dense_H_def dense_A_def instance_budget_def mock_env_def
        sample_instance_def base_instance_def arg_con_def slot_def casadi_copy_def)

lemma sample_hotstart_call_con:
  "hotstart_call (mock_env f) (sample_instance 2 2 chk) arg_con (replicate 22 0)
     = SQProblem_hotstart [2, 0, 0, 2] [- 4, - 4] [1, 1, 1, - 1] [- 10, - 10] [10, 10] [- 1, - 1] [1, 1] 20 None"
  by (simp add: hotstart_call_def dense_H_def dense_A_def instance_budget_def mock_env_def
        sample_instance_def base_instance_def arg_con_def slot_def casadi_copy_def)

lemma mock_invoke:
  "invoke (mock_env f) c q = (if c = QProblemB_reset then 0 else f, Suc q)"
  by (simp add: mock_env_def)

lemma sample_init:
  "init (base_instance 2 2 True default_config) = Inr (sample_instance 2 2 True)"
  by (simp add: init_def alloc_w_def casadi_assert_def Let_def INT_MAX_def sample_instance_def
        base_instance_def default_config_def)

lemma sample_status:
  "status (eval (mock_env f) (sample_instance 2 2 True) fresh_memory arg_con (res_all 2 2)
             (replicate 22 0)) = Some f"
proof -
  have q: "qp fresh_memory = Some 0" and v: "\<not> called_once fresh_memory"
    by (simp_all add: fresh_memory_def)
  show ?thesis
    unfolding status_eval [OF sample_accepted(2) q] calls_eval [OF sample_accepted(2) q]
    using v by (simp add: run_calls_simps mock_invoke sample_init_call_con)
qed

lemma mock_rv:
  "rv (mock_env f) ''SUCCESSFUL_RETURN'' = 0"
  "rv (mock_env f) ''RET_MAX_NWSR_REACHED'' = 62"
  by (simp_all add: mock_env_def rv_seq_SUCCESSFUL_RETURN rv_seq_RET_MAX_NWSR_REACHED)

lemma mock_solution:
  "getObjVal (mock_env f) q = - 8"
  "getPrimalSolution (mock_env f) q = [2, 2]"
  "getDualSolution (mock_env f) q = [5, 1, 3, 7]"
  by (simp_all add: mock_env_def)

lemma sample_dims:
  "n_' (sample_instance 2 2 chk) = 2" "nc_' (sample_instance 2 2 chk) = 2"
  "n_' (sample_instance 2 0 chk) = 2" "nc_' (sample_instance 2 0 chk) = 0"
  by (simp_all add: sample_instance_def base_instance_def)

lemma res_all_slots:
  "QPSOL_COST (res_all 2 2) = Some [7]" "QPSOL_X (res_all 2 2) = Some [7, 7]"
  "QPSOL_LAM_X (res_all 2 2) = Some [7, 7]" "QPSOL_LAM_A (res_all 2 2) = Some [7, 7]"
  by (simp_all add: res_all_def numeral_2_eq_2)


subsection \<open>What a solve does to the solver object\<close>

lemma primed_update:
  "called_once m \<Longrightarrow> m\<lparr>called_once := True, qp := x\<rparr> = m\<lparr>qp := x\<rparr>"
  by (cases m) simp

lemma eval_virgin:
  assumes "\<not> called_once m" and "qp m = Some q" and "accepted self arg"
  shows "calls (eval E self m arg res wv) = [init_call E self arg wv]"
    and "status (eval E self m arg res wv) = Some (fst (invoke E (init_call E self arg wv) q))"
    and "mem_out (eval E self m arg res wv)
           = m\<lparr>called_once := True,
               qp := Some (snd (invoke E (init_call E self arg wv) q))\<rparr>"
proof -
  show c: "calls (eval E self m arg res wv) = [init_call E self arg wv]"
    using assms(1) by (simp add: calls_eval [OF assms(3,2)])
  show "status (eval E self m arg res wv) = Some (fst (invoke E (init_call E self arg wv) q))"
    unfolding status_eval [OF assms(3,2)] c by (simp add: run_calls_simps)
  show "mem_out (eval E self m arg res wv)
           = m\<lparr>called_once := True,
               qp := Some (snd (invoke E (init_call E self arg wv) q))\<rparr>"
    unfolding mem_eval [OF assms(3,2)] c by (simp add: run_calls_simps)
qed

lemma eval_primed_constrained:
  assumes "called_once m" and "qp m = Some q" and "accepted self arg" and "nc_' self \<noteq> 0"
  shows "calls (eval E self m arg res wv) = [hotstart_call E self arg wv]"
    and "status (eval E self m arg res wv)
           = Some (fst (invoke E (hotstart_call E self arg wv) q))"
    and "mem_out (eval E self m arg res wv)
           = m\<lparr>qp := Some (snd (invoke E (hotstart_call E self arg wv) q))\<rparr>"
proof -
  show c: "calls (eval E self m arg res wv) = [hotstart_call E self arg wv]"
    using assms(1,4) by (simp add: calls_eval [OF assms(3,2)])
  show "status (eval E self m arg res wv)
           = Some (fst (invoke E (hotstart_call E self arg wv) q))"
    unfolding status_eval [OF assms(3,2)] c by (simp add: run_calls_simps)
  show "mem_out (eval E self m arg res wv)
           = m\<lparr>qp := Some (snd (invoke E (hotstart_call E self arg wv) q))\<rparr>"
    unfolding mem_eval [OF assms(3,2)] c primed_update [OF assms(1)]
    by (simp add: run_calls_simps)
qed

lemma eval_primed_unconstrained:
  assumes "called_once m" and "qp m = Some q" and "accepted self arg" and "nc_' self = 0"
  shows "calls (eval E self m arg res wv) = [QProblemB_reset, init_call E self arg wv]"
    and "status (eval E self m arg res wv)
           = Some (fst (invoke E (init_call E self arg wv) (snd (invoke E QProblemB_reset q))))"
    and "mem_out (eval E self m arg res wv)
           = m\<lparr>qp := Some (snd (invoke E (init_call E self arg wv)
                                   (snd (invoke E QProblemB_reset q))))\<rparr>"
proof -
  show c: "calls (eval E self m arg res wv) = [QProblemB_reset, init_call E self arg wv]"
    using assms(1,4) by (simp add: calls_eval [OF assms(3,2)])
  show "status (eval E self m arg res wv)
           = Some (fst (invoke E (init_call E self arg wv) (snd (invoke E QProblemB_reset q))))"
    unfolding status_eval [OF assms(3,2)] c by (simp add: run_calls_simps)
  show "mem_out (eval E self m arg res wv)
           = m\<lparr>qp := Some (snd (invoke E (init_call E self arg wv)
                                   (snd (invoke E QProblemB_reset q))))\<rparr>"
    unfolding mem_eval [OF assms(3,2)] c primed_update [OF assms(1)]
    by (simp add: run_calls_simps)
qed

lemma eval_rejected_fields:
  assumes "\<not> accepted self arg"
  shows "calls (eval E self m arg res wv) = []"
    and "status (eval E self m arg res wv) = None"
    and "thrown (eval E self m arg res wv) = Some ConfigurationError"
    and "mem_out (eval E self m arg res wv) = m"
    and "res_out (eval E self m arg res wv) = res"
  by (simp_all add: eval_rejected [OF assms])

lemma sample_rejected_con:
  "\<not> accepted (sample_instance 2 2 True) (arg_con\<lparr>QPSOL_LBX := [- 10, 11]\<rparr>)"
  by (simp add: accepted_def checkInputs_def bounds_ordered_def sample_instance_def
        base_instance_def arg_con_def)

lemma sample_init_memory:
  "fst (init_memory (mock_env f) (sample_instance 2 nc chk) m0) = fresh_memory"
  by (simp add: init_memory_def Let_def fresh_memory_def mock_env_def sample_instance_def
        base_instance_def default_config_def string_to_PrintLevel_def
        string_to_SubjectToStatus_def)
section \<open>The claims\<close>

subsection \<open>Hot start\<close>

text \<open>
  C1, as amended: take a primed memory (\<open>called_once\<close> set, solver object \<open>q\<close> present)
  and any solve on it.
  \<^item> If the solve passes the bound check and the problem has constraints, it attempts a
    warm restart using the cached backend-native state: its one call is
    \<^verbatim>\<open>SQProblem::hotstart\<close>, applied to the cached object \<open>q\<close> with the complete current
    data (\<open>H\<close>, \<open>g\<close>, \<open>A\<close> and all four bound vectors); the status is the one this call
    returns, and the object it leaves replaces \<open>q\<close> in the memory.
  \<^item> If the solve passes the bound check and the problem has no constraints, it resets
    \<open>q\<close> and initialises the result anew, instead of a warm restart.
  \<^item> If the bound check rejects the solve, no call is made and the memory is untouched.
  \<^item> In every case the memory is primed afterwards. It stays so until it is explicitly
    reset: \<open>init_memory\<close> clears \<open>called_once\<close> and installs a new solver object, and the
    next solve that passes the bound check is a cold initialisation of that object.
\<close>

theorem primed_solve_calls:
  fixes E :: "('q, 'sp) env"
  defines "r \<equiv> \<lambda>self m arg res wv. eval E self m arg res wv"
  assumes "called_once m" and "qp m = Some q"
  shows "(accepted self arg \<and> nc_' self \<noteq> 0 \<longrightarrow>
            calls (r self m arg res wv) = [hotstart_call E self arg wv]
          \<and> status (r self m arg res wv)
              = Some (fst (invoke E (hotstart_call E self arg wv) q))
          \<and> mem_out (r self m arg res wv)
              = m\<lparr>qp := Some (snd (invoke E (hotstart_call E self arg wv) q))\<rparr>)
       \<and> (accepted self arg \<and> nc_' self = 0 \<longrightarrow>
            calls (r self m arg res wv) = [QProblemB_reset, init_call E self arg wv]
          \<and> status (r self m arg res wv)
              = Some (fst (invoke E (init_call E self arg wv)
                             (snd (invoke E QProblemB_reset q))))
          \<and> mem_out (r self m arg res wv)
              = m\<lparr>qp := Some (snd (invoke E (init_call E self arg wv)
                                      (snd (invoke E QProblemB_reset q))))\<rparr>)
       \<and> (\<not> accepted self arg \<longrightarrow>
            calls (r self m arg res wv) = []
          \<and> status (r self m arg res wv) = None
          \<and> thrown (r self m arg res wv) = Some ConfigurationError
          \<and> mem_out (r self m arg res wv) = m)
       \<and> called_once (mem_out (r self m arg res wv))
       \<and> \<not> called_once (fst (init_memory E self (mem_out (r self m arg res wv))))
       \<and> (\<exists>q0. qp (fst (init_memory E self (mem_out (r self m arg res wv)))) = Some q0
            \<and> (accepted self arg' \<longrightarrow>
                  calls (r self (fst (init_memory E self (mem_out (r self m arg res wv))))
                           arg' res' wv')
                    = [init_call E self arg' wv']
                \<and> status (r self (fst (init_memory E self (mem_out (r self m arg res wv))))
                             arg' res' wv')
                    = Some (fst (invoke E (init_call E self arg' wv') q0))))"
proof -
  let ?m1 = "fst (init_memory E self (mem_out (eval E self m arg res wv)))"
  from init_memory_fresh [of E self "mem_out (eval E self m arg res wv)"]
  obtain q0 where v: "\<not> called_once ?m1" and q0: "qp ?m1 = Some q0"
    by auto
  have reset: "calls (eval E self ?m1 arg' res' wv') = [init_call E self arg' wv']
             \<and> status (eval E self ?m1 arg' res' wv')
                 = Some (fst (invoke E (init_call E self arg' wv') q0))"
    if "accepted self arg'"
    by (simp add: eval_virgin(1,2) [OF v q0 that])
  have stays: "called_once (mem_out (eval E self m arg res wv))"
    using assms(2) by (rule called_once_stays)
  have con: "calls (eval E self m arg res wv) = [hotstart_call E self arg wv]
          \<and> status (eval E self m arg res wv)
              = Some (fst (invoke E (hotstart_call E self arg wv) q))
          \<and> mem_out (eval E self m arg res wv)
              = m\<lparr>qp := Some (snd (invoke E (hotstart_call E self arg wv) q))\<rparr>"
    if "accepted self arg \<and> nc_' self \<noteq> 0"
    using that by (simp add: eval_primed_constrained [OF assms(2,3)])
  have box: "calls (eval E self m arg res wv) = [QProblemB_reset, init_call E self arg wv]
          \<and> status (eval E self m arg res wv)
              = Some (fst (invoke E (init_call E self arg wv)
                             (snd (invoke E QProblemB_reset q))))
          \<and> mem_out (eval E self m arg res wv)
              = m\<lparr>qp := Some (snd (invoke E (init_call E self arg wv)
                                      (snd (invoke E QProblemB_reset q))))\<rparr>"
    if "accepted self arg \<and> nc_' self = 0"
    using that by (simp add: eval_primed_unconstrained [OF assms(2,3)])
  have rej: "calls (eval E self m arg res wv) = []
          \<and> status (eval E self m arg res wv) = None
          \<and> thrown (eval E self m arg res wv) = Some ConfigurationError
          \<and> mem_out (eval E self m arg res wv) = m"
    if "\<not> accepted self arg"
    by (simp add: eval_rejected_fields [OF that])
  from con box rej stays v q0 reset show ?thesis
    unfolding r_def by blast
qed

theorem primed_solve_calls_witness:
  "called_once primed_memory \<and> qp primed_memory = Some 1
   \<and> accepted (sample_instance 2 2 True) arg_con \<and> nc_' (sample_instance 2 2 True) \<noteq> 0
   \<and> calls (eval (mock_env 0) (sample_instance 2 2 True) primed_memory arg_con (res_all 2 2)
             (replicate 22 0))
       = [SQProblem_hotstart [2, 0, 0, 2] [- 4, - 4] [1, 1, 1, - 1] [- 10, - 10] [10, 10]
            [- 1, - 1] [1, 1] 20 None]
   \<and> status (eval (mock_env 0) (sample_instance 2 2 True) primed_memory arg_con (res_all 2 2)
               (replicate 22 0)) = Some 0
   \<and> mem_out (eval (mock_env 0) (sample_instance 2 2 True) primed_memory arg_con (res_all 2 2)
                (replicate 22 0)) = primed_memory\<lparr>qp := Some 2\<rparr>
   \<and> accepted (sample_instance 2 0 True) arg_box \<and> nc_' (sample_instance 2 0 True) = 0
   \<and> calls (eval (mock_env 0) (sample_instance 2 0 True) primed_memory arg_box (res_all 2 0)
             (replicate 12 0))
       = [QProblemB_reset, QProblemB_init [2, 0, 0, 2] [- 4, - 4] [- 10, - 10] [10, 10] 10 None]
   \<and> mem_out (eval (mock_env 0) (sample_instance 2 0 True) primed_memory arg_box (res_all 2 0)
                (replicate 12 0)) = primed_memory\<lparr>qp := Some 3\<rparr>
   \<and> \<not> accepted (sample_instance 2 2 True) (arg_con\<lparr>QPSOL_LBX := [- 10, 11]\<rparr>)
   \<and> calls (eval (mock_env 0) (sample_instance 2 2 True) primed_memory
               (arg_con\<lparr>QPSOL_LBX := [- 10, 11]\<rparr>) (res_all 2 2) (replicate 22 0)) = []
   \<and> mem_out (eval (mock_env 0) (sample_instance 2 2 True) primed_memory
                 (arg_con\<lparr>QPSOL_LBX := [- 10, 11]\<rparr>) (res_all 2 2) (replicate 22 0))
       = primed_memory
   \<and> fst (init_memory (mock_env 0) (sample_instance 2 2 True) (primed_memory\<lparr>qp := Some 2\<rparr>))
       = fresh_memory
   \<and> \<not> called_once fresh_memory
   \<and> calls (eval (mock_env 0) (sample_instance 2 2 True) fresh_memory arg_con (res_all 2 2)
             (replicate 22 0))
       = [SQProblem_init [2, 0, 0, 2] [- 4, - 4] [1, 1, 1, - 1] [- 10, - 10] [10, 10]
            [- 1, - 1] [1, 1] 20 None]"
proof -
  have c: "called_once primed_memory" and q: "qp primed_memory = Some 1"
    and v: "\<not> called_once fresh_memory"
    by (simp_all add: primed_memory_def fresh_memory_def)
  have two: "Suc (Suc 1) = 3"
    by simp
  note con = primed_solve_calls [OF c q, of "sample_instance 2 2 True" arg_con "mock_env 0"
      "res_all 2 2" "replicate 22 0" arg_con "res_all 2 2" "replicate 22 0"]
  note box = primed_solve_calls [OF c q, of "sample_instance 2 0 True" arg_box "mock_env 0"
      "res_all 2 0" "replicate 12 0" arg_box "res_all 2 0" "replicate 12 0"]
  note rej = primed_solve_calls [OF c q, of "sample_instance 2 2 True"
      "arg_con\<lparr>QPSOL_LBX := [- 10, 11]\<rparr>" "mock_env 0"
      "res_all 2 2" "replicate 22 0" arg_con "res_all 2 2" "replicate 22 0"]
  from con sample_accepted(2) sample_dims(2)
  have 1: "calls (eval (mock_env 0) (sample_instance 2 2 True) primed_memory arg_con (res_all 2 2)
             (replicate 22 0))
       = [SQProblem_hotstart [2, 0, 0, 2] [- 4, - 4] [1, 1, 1, - 1] [- 10, - 10] [10, 10]
            [- 1, - 1] [1, 1] 20 None]"
    and 2: "status (eval (mock_env 0) (sample_instance 2 2 True) primed_memory arg_con
                      (res_all 2 2) (replicate 22 0)) = Some 0"
    and 3: "mem_out (eval (mock_env 0) (sample_instance 2 2 True) primed_memory arg_con
                       (res_all 2 2) (replicate 22 0)) = primed_memory\<lparr>qp := Some 2\<rparr>"
    by (simp_all add: sample_hotstart_call_con mock_invoke two)
  from con sample_accepted(2)
  have 4: "calls (eval (mock_env 0) (sample_instance 2 2 True)
                    (fst (init_memory (mock_env 0) (sample_instance 2 2 True)
                            (mem_out (eval (mock_env 0) (sample_instance 2 2 True) primed_memory
                                        arg_con (res_all 2 2) (replicate 22 0)))))
                    arg_con (res_all 2 2) (replicate 22 0))
       = [SQProblem_init [2, 0, 0, 2] [- 4, - 4] [1, 1, 1, - 1] [- 10, - 10] [10, 10]
            [- 1, - 1] [1, 1] 20 None]"
    by (auto simp: sample_init_call_con)
  from box sample_accepted(1) sample_dims(4)
  have 5: "calls (eval (mock_env 0) (sample_instance 2 0 True) primed_memory arg_box (res_all 2 0)
             (replicate 12 0))
       = [QProblemB_reset, QProblemB_init [2, 0, 0, 2] [- 4, - 4] [- 10, - 10] [10, 10] 10 None]"
    and 6: "mem_out (eval (mock_env 0) (sample_instance 2 0 True) primed_memory arg_box
                       (res_all 2 0) (replicate 12 0)) = primed_memory\<lparr>qp := Some 3\<rparr>"
    by (simp_all add: sample_init_call_box mock_invoke two)
  from rej sample_rejected_con
  have 7: "calls (eval (mock_env 0) (sample_instance 2 2 True) primed_memory
               (arg_con\<lparr>QPSOL_LBX := [- 10, 11]\<rparr>) (res_all 2 2) (replicate 22 0)) = []"
    and 8: "mem_out (eval (mock_env 0) (sample_instance 2 2 True) primed_memory
                 (arg_con\<lparr>QPSOL_LBX := [- 10, 11]\<rparr>) (res_all 2 2) (replicate 22 0))
       = primed_memory"
    by simp_all
  from 4 have 9: "calls (eval (mock_env 0) (sample_instance 2 2 True) fresh_memory arg_con
                           (res_all 2 2) (replicate 22 0))
       = [SQProblem_init [2, 0, 0, 2] [- 4, - 4] [1, 1, 1, - 1] [- 10, - 10] [10, 10]
            [- 1, - 1] [1, 1] 20 None]"
    by (simp add: sample_init_memory)
  from c q v sample_accepted(1,2) sample_dims(2,4) sample_rejected_con 1 2 3 5 6 7 8 9
  show ?thesis
    by (simp add: sample_init_memory)
qed

text \<open>
  The claim as stated fails in three ways. For \<open>n = 2\<close>, \<open>m = 0\<close> the second solve on the
  instance makes no hot-start call. Where the hot start is made (\<open>n = 2\<close>, \<open>m = 2\<close>), a
  second solve with the very same data hands all of the data over again. And a solve on
  a primed memory whose bounds the check rejects makes no call at all.
\<close>

theorem warm_restart_every_shape_counterexample:
  "called_once primed_memory \<and> 1 \<le> n_' (sample_instance 2 0 True)
   \<and> nc_' (sample_instance 2 0 True) = 0
   \<and> calls (eval (mock_env 0) (sample_instance 2 0 True) primed_memory arg_box (res_all 2 0)
             (replicate 12 0))
       = [QProblemB_reset, QProblemB_init [2, 0, 0, 2] [- 4, - 4] [- 10, - 10] [10, 10] 10 None]
   \<and> \<not> list_ex is_hotstart
         (calls (eval (mock_env 0) (sample_instance 2 0 True) primed_memory arg_box (res_all 2 0)
                   (replicate 12 0)))
   \<and> calls (eval (mock_env 0) (sample_instance 2 2 True)
               (mem_out (eval (mock_env 0) (sample_instance 2 2 True) fresh_memory arg_con
                           (res_all 2 2) (replicate 22 0)))
               arg_con (res_all 2 2) (replicate 22 0))
       = [SQProblem_hotstart [2, 0, 0, 2] [- 4, - 4] [1, 1, 1, - 1] [- 10, - 10] [10, 10]
            [- 1, - 1] [1, 1] 20 None]
   \<and> calls (eval (mock_env 0) (sample_instance 2 2 True) primed_memory
               (arg_con\<lparr>QPSOL_LBX := [- 10, 11]\<rparr>) (res_all 2 2) (replicate 22 0)) = []"
proof -
  have c: "called_once primed_memory" and q: "qp primed_memory = Some 1"
    by (simp_all add: primed_memory_def)
  have dims: "n_' (sample_instance 2 0 True) = 2" "nc_' (sample_instance 2 0 True) = 0"
    "nc_' (sample_instance 2 2 True) = 2"
    by (simp_all add: sample_instance_def base_instance_def)
  have box: "calls (eval (mock_env 0) (sample_instance 2 0 True) primed_memory arg_box
                     (res_all 2 0) (replicate 12 0))
       = [QProblemB_reset, QProblemB_init [2, 0, 0, 2] [- 4, - 4] [- 10, - 10] [10, 10] 10 None]"
    using c dims by (simp add: calls_eval [OF sample_accepted(1) q] sample_init_call_box)
  have f: "qp fresh_memory = Some 0"
    by (simp add: fresh_memory_def)
  have m1: "mem_out (eval (mock_env 0) (sample_instance 2 2 True) fresh_memory arg_con
                       (res_all 2 2) (replicate 22 0))
              = \<lparr>called_once = True, qp = Some 1\<rparr>"
    unfolding mem_eval [OF sample_accepted(2) f] calls_eval [OF sample_accepted(2) f]
    by (simp add: run_calls_simps mock_invoke fresh_memory_def)
  have con: "calls (eval (mock_env 0) (sample_instance 2 2 True) \<lparr>called_once = True, qp = Some 1\<rparr>
                     arg_con (res_all 2 2) (replicate 22 0))
       = [SQProblem_hotstart [2, 0, 0, 2] [- 4, - 4] [1, 1, 1, - 1] [- 10, - 10] [10, 10]
            [- 1, - 1] [1, 1] 20 None]"
    using dims by (simp add: calls_eval [OF sample_accepted(2)] sample_hotstart_call_con)
  have rej: "calls (eval (mock_env 0) (sample_instance 2 2 True) primed_memory
               (arg_con\<lparr>QPSOL_LBX := [- 10, 11]\<rparr>) (res_all 2 2) (replicate 22 0)) = []"
    by (rule eval_rejected_fields(1) [OF sample_rejected_con])
  from c dims box con rej show ?thesis
    unfolding m1 by simp
qed

subsection \<open>Budgets\<close>

text \<open>
  C2, as amended: the iteration budget and the time budget are fixed per instance, not
  per call. \<open>init\<close> takes them from the options \<open>nWSR\<close> and \<open>CPUtime\<close> (default
  \<open>5 (n + m)\<close> iterations and no time limit), and every call that any solve on the
  instance makes on the solver, a reset apart, is handed exactly this budget, whatever
  the memory, the inputs, the output slots and the work vector of the solve.
\<close>

theorem budget_fixed_at_init:
  assumes "init s = Inr self"
  shows "instance_budget self
           = (case opt_nWSR (options s) of Some k \<Rightarrow> k | None \<Rightarrow> int (5 * (n_' s + nc_' s)),
              opt_CPUtime (options s))
       \<and> (\<forall>c \<in> set (calls (eval E self m arg res wv)).
             c = QProblemB_reset \<or> budget_of c = Some (instance_budget self))"
proof
  from init_Inr(6,7,8) [OF assms]
  show "instance_budget self
           = (case opt_nWSR (options s) of Some k \<Rightarrow> k | None \<Rightarrow> int (5 * (n_' s + nc_' s)),
              opt_CPUtime (options s))"
    by (auto simp: instance_budget_def split: option.splits)
next
  show "\<forall>c \<in> set (calls (eval E self m arg res wv)).
          c = QProblemB_reset \<or> budget_of c = Some (instance_budget self)"
  proof (cases "accepted self arg")
    case False
    then show ?thesis by (simp add: eval_rejected)
  next
    case True
    show ?thesis
    proof (cases "qp m")
      case None
      with True show ?thesis by (simp add: eval_null_qp)
    next
      case (Some q)
      show ?thesis
        by (simp add: calls_eval [OF True Some] init_call_def hotstart_call_def)
    qed
  qed
qed

theorem budget_fixed_at_init_witness:
  "init (base_instance 2 2 True default_config) = Inr (sample_instance 2 2 True)
   \<and> instance_budget (sample_instance 2 2 True) = (20, None)
   \<and> list_all (\<lambda>c. c = QProblemB_reset \<or> budget_of c = Some (20, None))
       (calls (eval (mock_env 0) (sample_instance 2 2 True) fresh_memory arg_con (res_all 2 2)
                 (replicate 22 0)))
   \<and> calls (eval (mock_env 0) (sample_instance 2 2 True) fresh_memory arg_con (res_all 2 2)
               (replicate 22 0)) \<noteq> []"
proof -
  have f: "qp fresh_memory = Some 0" and v: "\<not> called_once fresh_memory"
    by (simp_all add: fresh_memory_def)
  have b: "instance_budget (sample_instance 2 2 True) = (20, None)"
    by (simp add: instance_budget_def sample_instance_def base_instance_def)
  have ne: "calls (eval (mock_env 0) (sample_instance 2 2 True) fresh_memory arg_con (res_all 2 2)
               (replicate 22 0)) \<noteq> []"
    using v by (simp add: calls_eval [OF sample_accepted(2) f])
  from budget_fixed_at_init [OF sample_init, of "mock_env 0" fresh_memory arg_con "res_all 2 2"
      "replicate 22 0"] b ne sample_init
  show ?thesis by (simp add: list_all_iff)
qed

text \<open>
  The claim as stated fails: the same solve, with the same arguments, runs under the
  budget 3 on an instance built with the option \<open>nWSR = 3\<close> and under 7 on one built
  with \<open>nWSR = 7\<close>; and two successive solves on the first instance, the second with a
  different gradient, both run under 3.
\<close>

theorem budget_per_call_counterexample:
  "init (base_instance 2 0 True (default_config\<lparr>opt_nWSR := Some 3\<rparr>))
     = Inr ((sample_instance 2 0 True)
              \<lparr>options := default_config\<lparr>opt_nWSR := Some 3\<rparr>, max_nWSR_' := 3\<rparr>)
   \<and> init (base_instance 2 0 True (default_config\<lparr>opt_nWSR := Some 7\<rparr>))
     = Inr ((sample_instance 2 0 True)
              \<lparr>options := default_config\<lparr>opt_nWSR := Some 7\<rparr>, max_nWSR_' := 7\<rparr>)
   \<and> map budget_of
         (calls (eval (mock_env 0)
                   ((sample_instance 2 0 True)
                      \<lparr>options := default_config\<lparr>opt_nWSR := Some 3\<rparr>, max_nWSR_' := 3\<rparr>)
                   fresh_memory arg_box (res_all 2 0) (replicate 12 0)))
       = [Some (3, None)]
   \<and> map budget_of
         (calls (eval (mock_env 0)
                   ((sample_instance 2 0 True)
                      \<lparr>options := default_config\<lparr>opt_nWSR := Some 7\<rparr>, max_nWSR_' := 7\<rparr>)
                   fresh_memory arg_box (res_all 2 0) (replicate 12 0)))
       = [Some (7, None)]
   \<and> map budget_of
         (calls (eval (mock_env 0)
                   ((sample_instance 2 0 True)
                      \<lparr>options := default_config\<lparr>opt_nWSR := Some 3\<rparr>, max_nWSR_' := 3\<rparr>)
                   primed_memory (arg_box\<lparr>QPSOL_G := [1, 1]\<rparr>) (res_all 2 0) (replicate 12 0)))
       = [None, Some (3, None)]"
proof -
  have f: "qp fresh_memory = Some 0" and v: "\<not> called_once fresh_memory"
    and p: "qp primed_memory = Some 1" and c: "called_once primed_memory"
    by (simp_all add: fresh_memory_def primed_memory_def)
  have acc: "accepted ((sample_instance 2 0 True)\<lparr>options := o', max_nWSR_' := k\<rparr>) arg_box"
       "accepted ((sample_instance 2 0 True)\<lparr>options := o', max_nWSR_' := k\<rparr>)
          (arg_box\<lparr>QPSOL_G := [1, 1]\<rparr>)" for o' k
    by (simp_all add: accepted_def checkInputs_def bounds_ordered_def sample_instance_def
          base_instance_def arg_box_def)
  have i: "init (base_instance 2 0 True (default_config\<lparr>opt_nWSR := Some k\<rparr>))
             = Inr ((sample_instance 2 0 True)
                      \<lparr>options := default_config\<lparr>opt_nWSR := Some k\<rparr>, max_nWSR_' := k\<rparr>)"
    if "0 \<le> k" for k
    using that
    by (simp add: init_def alloc_w_def casadi_assert_def Let_def INT_MAX_def sample_instance_def
          base_instance_def default_config_def)
  have b: "map budget_of
             (calls (eval (mock_env 0)
                       ((sample_instance 2 0 True)\<lparr>options := o', max_nWSR_' := k\<rparr>)
                       fresh_memory arg_box (res_all 2 0) (replicate 12 0)))
           = [Some (k, None)]" for o' k
    unfolding calls_eval [OF acc(1) f] using v
    by (simp add: init_call_def instance_budget_def sample_instance_def base_instance_def)
  have b2: "map budget_of
             (calls (eval (mock_env 0)
                       ((sample_instance 2 0 True)\<lparr>options := o', max_nWSR_' := k\<rparr>)
                       primed_memory (arg_box\<lparr>QPSOL_G := [1, 1]\<rparr>) (res_all 2 0)
                       (replicate 12 0)))
           = [None, Some (k, None)]" for o' k
    unfolding calls_eval [OF acc(2) p] using c
    by (simp add: init_call_def instance_budget_def sample_instance_def base_instance_def)
  show ?thesis
    by (simp add: i b b2)
qed

subsection \<open>The bound check\<close>

text \<open>
  C3, as amended: on an instance whose input check is enabled (\<open>inputs_check_\<close> set), a
  solve whose inputs hold a lower bound above its upper bound, among the first \<open>n\<close>
  variable bounds or the first \<open>m\<close> constraint bounds, yields a \<open>ConfigurationError\<close>
  before any backend call: no call is made, and memory and output slots are as they were.
  On an instance whose input check is disabled the bounds are not examined and no solve
  yields a \<open>ConfigurationError\<close>.
\<close>

theorem bound_check_when_enabled:
  "(inputs_check_' self \<and>
      ((\<exists>i. i < n_' self \<and> i < length (QPSOL_LBX arg) \<and> i < length (QPSOL_UBX arg)
            \<and> QPSOL_UBX arg ! i < QPSOL_LBX arg ! i)
       \<or> (\<exists>i. i < nc_' self \<and> i < length (QPSOL_LBA arg) \<and> i < length (QPSOL_UBA arg)
            \<and> QPSOL_UBA arg ! i < QPSOL_LBA arg ! i))
    \<longrightarrow> thrown (eval E self m arg res wv) = Some ConfigurationError
        \<and> calls (eval E self m arg res wv) = []
        \<and> mem_out (eval E self m arg res wv) = m
        \<and> res_out (eval E self m arg res wv) = res)
   \<and> (\<not> inputs_check_' self \<longrightarrow> thrown (eval E self m arg res wv) \<noteq> Some ConfigurationError)"
proof (intro conjI impI)
  assume "\<not> inputs_check_' self"
  then have a: "accepted self arg" by (simp add: accepted_def)
  show "thrown (eval E self m arg res wv) \<noteq> Some ConfigurationError"
  proof (cases "qp m")
    case None
    with a show ?thesis by (simp add: eval_null_qp)
  next
    case (Some q)
    with a show ?thesis by (simp add: thrown_reached)
  qed
next
  assume h: "inputs_check_' self \<and>
      ((\<exists>i. i < n_' self \<and> i < length (QPSOL_LBX arg) \<and> i < length (QPSOL_UBX arg)
            \<and> QPSOL_UBX arg ! i < QPSOL_LBX arg ! i)
       \<or> (\<exists>i. i < nc_' self \<and> i < length (QPSOL_LBA arg) \<and> i < length (QPSOL_UBA arg)
            \<and> QPSOL_UBA arg ! i < QPSOL_LBA arg ! i))"
  then have "checkInputs self (QPSOL_LBX arg) (QPSOL_UBX arg) (QPSOL_LBA arg) (QPSOL_UBA arg)
               = Some ConfigurationError"
    by (intro checkInputs_rejects) blast
  with h have r: "\<not> accepted self arg" by (simp add: accepted_def)
  show "thrown (eval E self m arg res wv) = Some ConfigurationError"
    and "calls (eval E self m arg res wv) = []"
    and "mem_out (eval E self m arg res wv) = m"
    and "res_out (eval E self m arg res wv) = res"
    by (simp_all add: eval_rejected [OF r])
qed

theorem bound_check_when_enabled_witness:
  "inputs_check_' (sample_instance 2 0 True)
   \<and> (1::nat) < n_' (sample_instance 2 0 True)
   \<and> 1 < length (QPSOL_LBX arg_bad) \<and> 1 < length (QPSOL_UBX arg_bad)
   \<and> QPSOL_UBX arg_bad ! 1 < QPSOL_LBX arg_bad ! 1
   \<and> thrown (eval (mock_env 0) (sample_instance 2 0 True) fresh_memory arg_bad (res_all 2 0)
              (replicate 12 0)) = Some ConfigurationError
   \<and> calls (eval (mock_env 0) (sample_instance 2 0 True) fresh_memory arg_bad (res_all 2 0)
              (replicate 12 0)) = []
   \<and> mem_out (eval (mock_env 0) (sample_instance 2 0 True) fresh_memory arg_bad (res_all 2 0)
              (replicate 12 0)) = fresh_memory
   \<and> res_out (eval (mock_env 0) (sample_instance 2 0 True) fresh_memory arg_bad (res_all 2 0)
              (replicate 12 0)) = res_all 2 0
   \<and> \<not> inputs_check_' (sample_instance 2 0 False)
   \<and> thrown (eval (mock_env 0) (sample_instance 2 0 False) fresh_memory arg_bad (res_all 2 0)
              (replicate 12 0)) \<noteq> Some ConfigurationError"
proof -
  have on: "inputs_check_' (sample_instance 2 0 True)"
    and off: "\<not> inputs_check_' (sample_instance 2 0 False)"
    and bad: "(1::nat) < n_' (sample_instance 2 0 True)"
      "1 < length (QPSOL_LBX arg_bad)" "1 < length (QPSOL_UBX arg_bad)"
      "QPSOL_UBX arg_bad ! 1 < QPSOL_LBX arg_bad ! 1"
    by (simp_all add: sample_instance_def base_instance_def arg_bad_def arg_box_def)
  from bad have "\<exists>i. i < n_' (sample_instance 2 0 True) \<and> i < length (QPSOL_LBX arg_bad)
      \<and> i < length (QPSOL_UBX arg_bad) \<and> QPSOL_UBX arg_bad ! i < QPSOL_LBX arg_bad ! i"
    by blast
  with on off bad
    bound_check_when_enabled [of "sample_instance 2 0 True" arg_bad "mock_env 0" fresh_memory
      "res_all 2 0" "replicate 12 0"]
    bound_check_when_enabled [of "sample_instance 2 0 False" arg_bad "mock_env 0" fresh_memory
      "res_all 2 0" "replicate 12 0"]
  show ?thesis by blast
qed

text \<open>
  The claim as stated fails on an instance built with the input check disabled: the
  second variable has the lower bound 11 above its upper bound 10, and the solve raises
  nothing and initialises the backend with these bounds.
\<close>

theorem bound_check_always_counterexample:
  "QPSOL_UBX arg_bad ! 1 < QPSOL_LBX arg_bad ! 1
   \<and> thrown (eval (mock_env 0) (sample_instance 2 0 False) fresh_memory arg_bad (res_all 2 0)
              (replicate 12 0)) = None
   \<and> calls (eval (mock_env 0) (sample_instance 2 0 False) fresh_memory arg_bad (res_all 2 0)
              (replicate 12 0))
       = [QProblemB_init [2, 0, 0, 2] [- 4, - 4] [- 10, 11] [10, 10] 10 None]"
proof -
  have f: "qp fresh_memory = Some 0" and v: "\<not> called_once fresh_memory"
    by (simp_all add: fresh_memory_def)
  have bad: "QPSOL_UBX arg_bad ! 1 < QPSOL_LBX arg_bad ! 1"
    by (simp add: arg_bad_def arg_box_def)
  have cs: "calls (eval (mock_env 0) (sample_instance 2 0 False) fresh_memory arg_bad
                     (res_all 2 0) (replicate 12 0))
       = [QProblemB_init [2, 0, 0, 2] [- 4, - 4] [- 10, 11] [10, 10] 10 None]"
    unfolding calls_eval [OF sample_accepted(4) f] using v
    by (simp add: sample_init_call_bad)
  have "thrown (eval (mock_env 0) (sample_instance 2 0 False) fresh_memory arg_bad
                  (res_all 2 0) (replicate 12 0)) = None"
    unfolding thrown_reached [OF sample_accepted(4) f] cs
    by (simp add: run_calls_simps mock_invoke hard_failure_def mock_env_def
          rv_seq_SUCCESSFUL_RETURN)
  with bad cs show ?thesis by simp
qed

subsection \<open>The first solve\<close>

text \<open>
  C4, as amended: memory that \<open>init_memory\<close> has just set up is virgin (\<open>called_once\<close>
  clear) and holds a solver object \<open>q\<close>. The first solve on it that passes the bound
  check performs a full cold initialisation of the backend-native state, whatever the
  backend is: its one call is the initialisation with the data of the call
  (\<^verbatim>\<open>QProblemB::init\<close> without constraints, \<^verbatim>\<open>SQProblem::init\<close> with), applied to \<open>q\<close>;
  the status is the one this call returns, the object it leaves replaces \<open>q\<close> in the
  memory, and \<open>called_once\<close> is set. A first solve that the bound check rejects makes no
  call and leaves the memory as it is, virgin. Once \<open>called_once\<close> is set, it remains
  set after every later call of \<open>eval\<close> on that memory.
\<close>

theorem first_solve_cold_init:
  assumes "m = fst (init_memory E self m0)"
  shows "\<not> called_once m
       \<and> (\<exists>q. qp m = Some q
            \<and> (accepted self arg \<longrightarrow>
                  calls (eval E self m arg res wv) = [init_call E self arg wv]
                \<and> is_init (init_call E self arg wv)
                \<and> status (eval E self m arg res wv)
                    = Some (fst (invoke E (init_call E self arg wv) q))
                \<and> mem_out (eval E self m arg res wv)
                    = m\<lparr>called_once := True,
                        qp := Some (snd (invoke E (init_call E self arg wv) q))\<rparr>))
       \<and> (\<not> accepted self arg \<longrightarrow>
            calls (eval E self m arg res wv) = []
          \<and> status (eval E self m arg res wv) = None
          \<and> thrown (eval E self m arg res wv) = Some ConfigurationError
          \<and> mem_out (eval E self m arg res wv) = m)
       \<and> (called_once m' \<longrightarrow> called_once (mem_out (eval E' self' m' arg' res' wv')))"
proof -
  from assms init_memory_fresh [of E self m0]
  obtain q where v: "\<not> called_once m" and q: "qp m = Some q"
    by auto
  have cold: "calls (eval E self m arg res wv) = [init_call E self arg wv]
                \<and> is_init (init_call E self arg wv)
                \<and> status (eval E self m arg res wv)
                    = Some (fst (invoke E (init_call E self arg wv) q))
                \<and> mem_out (eval E self m arg res wv)
                    = m\<lparr>called_once := True,
                        qp := Some (snd (invoke E (init_call E self arg wv) q))\<rparr>"
    if "accepted self arg"
    by (simp add: eval_virgin [OF v q that] init_call_def)
  have rej: "calls (eval E self m arg res wv) = []
          \<and> status (eval E self m arg res wv) = None
          \<and> thrown (eval E self m arg res wv) = Some ConfigurationError
          \<and> mem_out (eval E self m arg res wv) = m"
    if "\<not> accepted self arg"
    by (simp add: eval_rejected_fields [OF that])
  from v q cold rej called_once_stays [of m' E' self' arg' res' wv'] show ?thesis
    by blast
qed

theorem first_solve_cold_init_witness:
  "fresh_memory = fst (init_memory (mock_env 0) (sample_instance 2 0 True)
                         \<lparr>called_once = True, qp = None\<rparr>)
   \<and> \<not> called_once fresh_memory \<and> qp fresh_memory = Some 0
   \<and> accepted (sample_instance 2 0 True) arg_box
   \<and> calls (eval (mock_env 0) (sample_instance 2 0 True) fresh_memory arg_box (res_all 2 0)
             (replicate 12 0))
       = [QProblemB_init [2, 0, 0, 2] [- 4, - 4] [- 10, - 10] [10, 10] 10 None]
   \<and> status (eval (mock_env 0) (sample_instance 2 0 True) fresh_memory arg_box (res_all 2 0)
               (replicate 12 0)) = Some 0
   \<and> mem_out (eval (mock_env 0) (sample_instance 2 0 True) fresh_memory arg_box (res_all 2 0)
                (replicate 12 0)) = primed_memory
   \<and> \<not> accepted (sample_instance 2 0 True) arg_bad
   \<and> calls (eval (mock_env 0) (sample_instance 2 0 True) fresh_memory arg_bad (res_all 2 0)
             (replicate 12 0)) = []
   \<and> mem_out (eval (mock_env 0) (sample_instance 2 0 True) fresh_memory arg_bad (res_all 2 0)
                (replicate 12 0)) = fresh_memory
   \<and> called_once primed_memory
   \<and> called_once (mem_out (eval (mock_env 33) (sample_instance 2 2 True) primed_memory arg_con
                              (res_all 2 2) (replicate 22 0)))"
proof -
  have i: "fresh_memory = fst (init_memory (mock_env 0) (sample_instance 2 0 True)
                                 \<lparr>called_once = True, qp = None\<rparr>)"
    by (simp add: sample_init_memory)
  have c: "called_once primed_memory" and v: "\<not> called_once fresh_memory"
    and q: "qp fresh_memory = Some 0"
    by (simp_all add: primed_memory_def fresh_memory_def)
  have p: "fresh_memory\<lparr>called_once := True, qp := Some (Suc 0)\<rparr> = primed_memory"
    by (simp add: primed_memory_def fresh_memory_def)
  from first_solve_cold_init [OF i, of arg_box "res_all 2 0" "replicate 12 0"
      primed_memory "mock_env 33" "sample_instance 2 2 True" arg_con "res_all 2 2" "replicate 22 0"]
    sample_accepted(1) q c
  have ok: "calls (eval (mock_env 0) (sample_instance 2 0 True) fresh_memory arg_box (res_all 2 0)
             (replicate 12 0))
       = [QProblemB_init [2, 0, 0, 2] [- 4, - 4] [- 10, - 10] [10, 10] 10 None]
   \<and> status (eval (mock_env 0) (sample_instance 2 0 True) fresh_memory arg_box (res_all 2 0)
               (replicate 12 0)) = Some 0
   \<and> mem_out (eval (mock_env 0) (sample_instance 2 0 True) fresh_memory arg_box (res_all 2 0)
                (replicate 12 0)) = primed_memory
   \<and> called_once (mem_out (eval (mock_env 33) (sample_instance 2 2 True) primed_memory arg_con
                              (res_all 2 2) (replicate 22 0)))"
    by (auto simp: sample_init_call_box mock_invoke p)
  from first_solve_cold_init [OF i, of arg_bad "res_all 2 0" "replicate 12 0"
      primed_memory "mock_env 33" "sample_instance 2 2 True" arg_con "res_all 2 2" "replicate 22 0"]
    sample_accepted(3)
  have no: "calls (eval (mock_env 0) (sample_instance 2 0 True) fresh_memory arg_bad (res_all 2 0)
             (replicate 12 0)) = []
   \<and> mem_out (eval (mock_env 0) (sample_instance 2 0 True) fresh_memory arg_bad (res_all 2 0)
                (replicate 12 0)) = fresh_memory"
    by simp
  from i c v q sample_accepted(1,3) ok no show ?thesis
    by simp
qed

text \<open>
  The claim as stated fails when the first solve has malformed bounds and the input
  check is on: the solve is rejected before the backend is reached, so no cold
  initialisation takes place and the memory stays virgin.
\<close>

theorem first_solve_always_counterexample:
  "fst (init_memory (mock_env 0) (sample_instance 2 0 True) \<lparr>called_once = True, qp = None\<rparr>)
     = fresh_memory
   \<and> calls (eval (mock_env 0) (sample_instance 2 0 True) fresh_memory arg_bad (res_all 2 0)
             (replicate 12 0)) = []
   \<and> thrown (eval (mock_env 0) (sample_instance 2 0 True) fresh_memory arg_bad (res_all 2 0)
              (replicate 12 0)) = Some ConfigurationError
   \<and> \<not> called_once (mem_out (eval (mock_env 0) (sample_instance 2 0 True) fresh_memory arg_bad
                                (res_all 2 0) (replicate 12 0)))"
  by (simp add: sample_init_memory eval_rejected_fields [OF sample_accepted(3)] fresh_memory_def)

subsection \<open>Status of the backend and outputs\<close>





text \<open>
  C9: whenever a solve gets as far as writing outputs, each multiplier slot that is
  requested receives the dual solution of the solver with the sign flipped: with \<open>d\<close> the
  vector that \<^verbatim>\<open>getDualSolution\<close> delivers, the first \<open>n\<close> cells of \<open>LAM_X\<close> become
  \<open>-d[0..n)\<close> and the first \<open>m\<close> cells of \<open>LAM_A\<close> become \<open>-d[n..n+m)\<close>. A slot that
  is null stays null.
\<close>

theorem dual_sign_flipped:
  assumes "thrown (eval E self m arg res wv) = None"
  shows "\<exists>q'. qp (mem_out (eval E self m arg res wv)) = Some q'
     \<and> QPSOL_LAM_X (res_out (eval E self m arg res wv))
         = map_option (\<lambda>y. map uminus (take (n_' self) (getDualSolution E q')) @ drop (n_' self) y)
             (QPSOL_LAM_X res)
     \<and> QPSOL_LAM_A (res_out (eval E self m arg res wv))
         = map_option (\<lambda>y. map uminus (take (nc_' self) (drop (n_' self) (getDualSolution E q')))
                             @ drop (nc_' self) y)
             (QPSOL_LAM_A res)"
  using eval_outputs [OF assms] by blast

theorem dual_sign_flipped_witness:
  "thrown (eval (mock_env 0) (sample_instance 2 2 True) fresh_memory arg_con (res_all 2 2)
             (replicate 22 0)) = None
   \<and> getDualSolution (mock_env 0) 1 = [5, 1, 3, 7]
   \<and> QPSOL_LAM_X (res_out (eval (mock_env 0) (sample_instance 2 2 True) fresh_memory arg_con
                               (res_all 2 2) (replicate 22 0))) = Some [- 5, - 1]
   \<and> QPSOL_LAM_A (res_out (eval (mock_env 0) (sample_instance 2 2 True) fresh_memory arg_con
                               (res_all 2 2) (replicate 22 0))) = Some [- 3, - 7]"
proof -
  have t: "thrown (eval (mock_env 0) (sample_instance 2 2 True) fresh_memory arg_con (res_all 2 2)
             (replicate 22 0)) = None"
    by (simp add: thrown_eval [OF sample_status [of 0]] hard_failure_def mock_rv)
  from dual_sign_flipped [OF t] t show ?thesis
    by (simp add: mock_solution sample_dims res_all_slots)
qed

subsection \<open>Work memory\<close>

text \<open>
  C8: the size of the work memory is a function of the dimensions alone. For an instance
  with \<open>n\<close> variables and \<open>m\<close> constraints whose buffer sizes fit the C++ \<^verbatim>\<open>int\<close> in
  which they are computed and whose options \<open>nWSR\<close> and \<open>CPUtime\<close>, if set, pass the
  assertions, \<open>init\<close> succeeds and extends the work memory by exactly
  \<open>n\<^sup>2 + n m + 4 n + 3 m\<close> doubles, leaving the dimensions as they are. A solve on a work
  vector of that size takes its slots (for \<open>H\<close>, \<open>A\<close>, \<open>g\<close>, the four bound vectors and,
  if a multiplier is requested, the dual vector of length \<open>n + m\<close>) from it at their full
  sizes, in total no more than the vector holds; \<open>eval\<close> has no means to extend the work
  memory, since it returns no instance. And another instance with the same dimensions
  and the same work memory before \<open>init\<close> has the same work memory after it, whatever its
  options.
\<close>

theorem workspace_size:
  assumes "int (n_' s * n_' s) \<le> INT_MAX" and "int (n_' s * nc_' s) \<le> INT_MAX"
      and "int (n_' s + nc_' s) \<le> INT_MAX"
      and "case opt_nWSR (options s) of
             Some k \<Rightarrow> 0 \<le> k
           | None \<Rightarrow> int (5 * (n_' s + nc_' s)) \<le> INT_MAX"
      and "case opt_CPUtime (options s) of Some t \<Rightarrow> 0 < t | None \<Rightarrow> True"
  shows "\<exists>self. init s = Inr self \<and> n_' self = n_' s \<and> nc_' self = nc_' s
       \<and> sz_w self = sz_w s + (n_' s * n_' s + n_' s * nc_' s + 4 * n_' s + 3 * nc_' s)
       \<and> (length wv = n_' s * n_' s + n_' s * nc_' s + 4 * n_' s + 3 * nc_' s \<longrightarrow>
            carved (eval E self m arg res wv)
              = take (length (carved (eval E self m arg res wv))) (slot_sizes (n_' s) (nc_' s))
            \<and> length (carved (eval E self m arg res wv)) \<in> {0, 7, 8}
            \<and> sum_list (carved (eval E self m arg res wv)) \<le> length wv)
       \<and> (init t = Inr t' \<and> n_' t = n_' s \<and> nc_' t = nc_' s \<and> sz_w t = sz_w s \<longrightarrow>
            sz_w t' = sz_w self)"
proof -
  from init_succeeds [OF assms] obtain self where i: "init s = Inr self"
    by blast
  note d = init_Inr(1,2,5) [OF i]
  have total: "sum_list (slot_sizes (n_' s) (nc_' s))
                 = n_' s * n_' s + n_' s * nc_' s + 4 * n_' s + 3 * nc_' s"
    by (simp add: slot_sizes_def)
  have w: "carved (eval E self m arg res wv)
              = take (length (carved (eval E self m arg res wv))) (slot_sizes (n_' s) (nc_' s))
            \<and> length (carved (eval E self m arg res wv)) \<in> {0, 7, 8}
            \<and> sum_list (carved (eval E self m arg res wv)) \<le> length wv"
    if len: "length wv = n_' s * n_' s + n_' s * nc_' s + 4 * n_' s + 3 * nc_' s"
  proof -
    from len total have "sum_list (slot_sizes (n_' self) (nc_' self)) \<le> length wv"
      by (simp add: d)
    from carved_full [OF this, of E m arg res]
    have c: "carved (eval E self m arg res wv)
              = take (length (carved (eval E self m arg res wv))) (slot_sizes (n_' s) (nc_' s))"
      by (simp add: d)
    have "sum_list (take k (slot_sizes (n_' s) (nc_' s))) \<le> sum_list (slot_sizes (n_' s) (nc_' s))"
      for k
      by (metis append_take_drop_id le_add1 sum_list_append)
    with c len total have "sum_list (carved (eval E self m arg res wv)) \<le> length wv"
      by metis
    with c length_carved [of E self m arg res wv] show ?thesis by blast
  qed
  have "sz_w t' = sz_w self"
    if "init t = Inr t' \<and> n_' t = n_' s \<and> nc_' t = nc_' s \<and> sz_w t = sz_w s"
    using that d(3) init_Inr(5) [of t t'] by simp
  with i d w show ?thesis by blast
qed

theorem workspace_size_witness:
  "int (2 * 2) \<le> INT_MAX \<and> int (2 + 2) \<le> INT_MAX \<and> int (5 * (2 + 2)) \<le> INT_MAX
   \<and> init (base_instance 2 2 True default_config) = Inr (sample_instance 2 2 True)
   \<and> sz_w (sample_instance 2 2 True) = 22
   \<and> length (replicate 22 (0::real)) = 22
   \<and> carved (eval (mock_env 0) (sample_instance 2 2 True) fresh_memory arg_con (res_all 2 2)
               (replicate 22 0)) = [4, 4, 2, 2, 2, 2, 2, 4]
   \<and> init (base_instance 2 2 False (default_config\<lparr>opt_nWSR := Some 3\<rparr>))
       = Inr ((sample_instance 2 2 False)
                \<lparr>options := default_config\<lparr>opt_nWSR := Some 3\<rparr>, max_nWSR_' := 3\<rparr>)
   \<and> sz_w ((sample_instance 2 2 False)
              \<lparr>options := default_config\<lparr>opt_nWSR := Some 3\<rparr>, max_nWSR_' := 3\<rparr>) = 22"
proof -
  let ?s = "base_instance 2 2 True default_config"
  let ?t = "base_instance 2 2 False (default_config\<lparr>opt_nWSR := Some 3\<rparr>)"
  let ?t' = "(sample_instance 2 2 False)
               \<lparr>options := default_config\<lparr>opt_nWSR := Some 3\<rparr>, max_nWSR_' := 3\<rparr>"
  let ?r = "eval (mock_env 0) (sample_instance 2 2 True) fresh_memory arg_con (res_all 2 2)
              (replicate 22 0)"
  have s: "n_' ?s = 2" "nc_' ?s = 2" "sz_w ?s = 0" "opt_nWSR (options ?s) = None"
    "opt_CPUtime (options ?s) = None"
    "n_' ?t = 2" "nc_' ?t = 2" "sz_w ?t = 0"
    by (simp_all add: base_instance_def default_config_def)
  have rng: "int (n_' ?s * n_' ?s) \<le> INT_MAX" "int (n_' ?s * nc_' ?s) \<le> INT_MAX"
    "int (n_' ?s + nc_' ?s) \<le> INT_MAX"
    "case opt_nWSR (options ?s) of Some k \<Rightarrow> 0 \<le> k
     | None \<Rightarrow> int (5 * (n_' ?s + nc_' ?s)) \<le> INT_MAX"
    "case opt_CPUtime (options ?s) of Some t \<Rightarrow> 0 < t | None \<Rightarrow> True"
    by (simp_all add: s INT_MAX_def)
  have it: "init ?t = Inr ?t'"
    by (simp add: init_def alloc_w_def casadi_assert_def Let_def INT_MAX_def sample_instance_def
          base_instance_def default_config_def)
  have len: "length (carved ?r) = 8"
  proof -
    have q: "qp fresh_memory = Some 0" and v: "\<not> called_once fresh_memory"
      by (simp_all add: fresh_memory_def)
    have "\<not> hard_failure (mock_env 0) 0"
      by (simp add: hard_failure_def mock_rv)
    then show ?thesis
      unfolding eval_def check_accepted [OF sample_accepted(2)] using q v
      by (simp add: Let_def split_def mock_invoke sample_dims res_all_slots
            hard_failure_def [symmetric])
  qed
  from workspace_size [OF rng, of "replicate 22 0" "mock_env 0" fresh_memory arg_con "res_all 2 2"
      ?t ?t'] sample_init it
  have "sz_w (sample_instance 2 2 True) = 22
      \<and> carved ?r = take (length (carved ?r)) (slot_sizes 2 2)
      \<and> sz_w ?t' = sz_w (sample_instance 2 2 True)"
    by (simp add: s)
  with len sample_init it show ?thesis
    by (simp add: slot_sizes_def INT_MAX_def)
qed


end
